theory Spec2Isabelle
  imports Complex_Main "HOL-Library.AList" "HOL-Library.Code_Target_Numeral"
begin

section \<open>JavaScript values used by the node\<close>

text \<open>
  A JavaScript \<open>number\<close> is a double. The numbers that this program computes with are
  integers (lamports, timestamps, counters), \<open>NaN\<close>, which \<open>parseInt\<close> returns for a string
  without digits, and the two infinities, which it returns for a numeral too large for a
  double. \<open>Num i\<close> is the double whose value is the integer \<open>i\<close>; the functions below build
  it only for an \<open>i\<close> that a double represents exactly. Zero has one representation: the sign
  of \<open>-0\<close> is not kept. A \<open>string\<close> is a list of code units below 256. Balances in SOL are
  quotients of two integers and are kept as rationals.
\<close>

datatype number = NaN | Num int | Infinity | NegInfinity

text \<open>\<open>a > b\<close> on numbers: false as soon as one side is \<open>NaN\<close>.\<close>

fun number_gt :: "number \<Rightarrow> number \<Rightarrow> bool" where
  "number_gt (Num a) (Num b) = (b < a)"
| "number_gt Infinity (Num b) = True"
| "number_gt Infinity NegInfinity = True"
| "number_gt (Num a) NegInfinity = True"
| "number_gt _ _ = False"

text \<open>
  The double nearest to an integer. A double has 53 significant bits: \<open>ulp n\<close> is the
  weight of the last of them for \<open>n \<ge> 0\<close>, 1 below \<open>2^53\<close> (9007199254740992) and doubling
  with every further bit of \<open>n\<close>. The integer is rounded to the nearest multiple of that
  weight, a tie going to the multiple with an even quotient, and a result of \<open>2^1024\<close>
  (\<open>double_overflow\<close>) or more is infinite.
\<close>

function ulp :: "int \<Rightarrow> int" where
  "ulp n = (if n < 9007199254740992 then 1 else 2 * ulp (n div 2))"
  by pat_completeness auto

termination
  by (relation "measure nat") auto

declare ulp.simps [simp del]

definition double_overflow :: int where
  "double_overflow = 179769313486231590772930519078902473361797697894230657273430081157732675805500963132708477322407536021120113879871393357658789768814416622492847430639474124377767893424865485276302219601246094119453082952085005768838150682342462881473913110540827237163350510684586298239947245938479716304835356329624224137216"

definition to_double :: "int \<Rightarrow> number" where
  "to_double n =
     (let m = \<bar>n\<bar>;
          p = ulp m;
          q = m div p;
          r = m mod p;
          q' = (if p < 2 * r \<or> (2 * r = p \<and> odd q) then q + 1 else q)
      in if double_overflow \<le> q' * p then (if n < 0 then NegInfinity else Infinity)
         else Num (if n < 0 then - (q' * p) else q' * p))"

definition is_space :: "char \<Rightarrow> bool" where
  "is_space c = ((of_char c :: nat) \<in> {9, 10, 11, 12, 13, 32, 160})"

text \<open>The value of a character as a digit of radix \<open>R\<close> (\<open>R \<le> 36\<close>), if it is one.\<close>

definition digit_of :: "nat \<Rightarrow> char \<Rightarrow> nat option" where
  "digit_of R c =
     (let n = (of_char c :: nat);
          d = (if 48 \<le> n \<and> n \<le> 57 then Some (n - 48)
               else if 97 \<le> n \<and> n \<le> 122 then Some (n - 87)
               else if 65 \<le> n \<and> n \<le> 90 then Some (n - 55)
               else None)
      in case d of None \<Rightarrow> None | Some v \<Rightarrow> if v < R then Some v else None)"

fun leading_digits :: "nat \<Rightarrow> string \<Rightarrow> nat list" where
  "leading_digits R [] = []"
| "leading_digits R (c # cs) =
     (case digit_of R c of None \<Rightarrow> [] | Some d \<Rightarrow> d # leading_digits R cs)"

definition digits_value :: "nat \<Rightarrow> nat list \<Rightarrow> int" where
  "digits_value R ds = foldl (\<lambda>a d. a * int R + int d) 0 ds"

text \<open>
  \<open>parseInt(s)\<close> with no radix argument: leading white space is skipped, one sign is read,
  a \<open>0x\<close>/\<open>0X\<close> prefix selects radix 16, the longest prefix of digits is the value, and a
  string with no digit there is \<open>NaN\<close>. The result is a double: the integer that the
  digits denote, rounded as Node rounds it, to the nearest double.
\<close>

definition parseInt :: "string \<Rightarrow> number" where
  "parseInt s =
     (let t = dropWhile is_space s;
          neg = (take 1 t = ''-'');
          u = (if take 1 t = ''-'' \<or> take 1 t = ''+'' then drop 1 t else t);
          hex = (take 2 u = ''0x'' \<or> take 2 u = ''0X'');
          R = (if hex then 16 else 10);
          ds = leading_digits R (if hex then drop 2 u else u)
      in if ds = [] then NaN
         else to_double ((if neg then - 1 else 1) * digits_value R ds))"

text \<open>
  \<open>String(n)\<close> for the size of an array or of a map, or an index into one: the decimal
  digits of a natural number.
\<close>

definition digit_char :: "nat \<Rightarrow> char" where
  "digit_char d = char_of (48 + d)"

fun decimal :: "nat \<Rightarrow> string" where
  "decimal n = (if n < 10 then [digit_char n] else decimal (n div 10) @ [digit_char (n mod 10)])"

declare decimal.simps [simp del]

text \<open>\<open>xs.join(sep)\<close> on an array of strings.\<close>

fun join :: "string \<Rightarrow> string list \<Rightarrow> string" where
  "join sep [] = []"
| "join sep [x] = x"
| "join sep (x # y # ys) = x @ sep @ join sep (y # ys)"

section \<open>Data model (types/index.ts)\<close>

text \<open>
  The fields of an offer as they arrive from the dispatcher: \<open>asset\<close> and \<open>amount\<close> are
  strings (the type says \<open>'SOL' | 'USDC'\<close>, the executor still has a branch for anything
  else), \<open>expiresAt\<close> is optional. The optional \<open>metadata\<close> is read by no function here.
\<close>

record offer =
  oid :: string
  partId :: string
  asset :: string
  amount :: string
  recipient :: string
  feeLamports :: int
  expiresAt :: "int option"

record offer_acceptance =
  offerId :: string
  nodeId :: string
  timestamp :: int

record execution_receipt =
  rPartId :: string
  txSignature :: string
  spentLamports :: number
  feePaid :: int
  rTimestamp :: int
  success :: bool
  err :: "string option"

record wallet_balance =
  publicKey :: string
  balanceSOL :: rat
  balanceUSDC :: "rat option"
  isActive :: bool

datatype health = healthy | degraded | unhealthy

record heartbeat_data =
  hbTimestamp :: int
  hbStatus :: health
  hbBalances :: "wallet_balance list"
  hbActiveOffers :: nat
  hbVersion :: string

section \<open>WalletManager\<close>

text \<open>A key pair is known to the node by the text of its public key.\<close>

datatype keypair = Keypair (pubkeyText: string)

record wallet_manager =
  nodeKeypair :: keypair
  relayKeypairs :: "keypair list"
  currentRelayIndex :: nat

text \<open>
  \<open>getNextRelayWallet\<close>: throws on an empty pool; otherwise reads the array at the cursor
  (an index outside the array reads \<open>undefined\<close>, here \<open>None\<close>) and moves the cursor to
  \<open>(cursor + 1) % length\<close>.
\<close>

definition getNextRelayWallet :: "wallet_manager \<Rightarrow> string + (keypair option \<times> wallet_manager)" where
  "getNextRelayWallet wm =
     (if length (relayKeypairs wm) = 0 then Inl ''No relay wallets available''
      else
        let wallet = (if currentRelayIndex wm < length (relayKeypairs wm)
                      then Some (relayKeypairs wm ! currentRelayIndex wm) else None)
        in Inr (wallet,
                wm\<lparr>currentRelayIndex := (currentRelayIndex wm + 1) mod length (relayKeypairs wm)\<rparr>))"

text \<open>\<open>n\<close> consecutive calls, collecting what each returns; the first throw ends the run.\<close>

fun nextWallets :: "nat \<Rightarrow> wallet_manager \<Rightarrow> string + (keypair option list \<times> wallet_manager)" where
  "nextWallets 0 wm = Inr ([], wm)"
| "nextWallets (Suc n) wm =
     (case getNextRelayWallet wm of
        Inl e \<Rightarrow> Inl e
      | Inr (w, wm') \<Rightarrow>
          (case nextWallets n wm' of
             Inl e \<Rightarrow> Inl e
           | Inr (ws, wm'') \<Rightarrow> Inr (w # ws, wm'')))"

section \<open>Node state, log and metrics\<close>

datatype level = INFO | WARN | ERROR | DEBUG

text \<open>
  A value thrown on the way of an offer or of a heartbeat is known by two things. Its
  \<open>message\<close> is what the executor copies into a failure receipt: \<open>error.message\<close> of an
  \<open>Error\<close>, \<open>String(error)\<close> of anything else. Its \<open>json\<close> is what the logger makes of it
  when it is passed as an extra argument (\<open>JSON.stringify\<close> of an object): the text
  (\<open>Inr\<close>), or the message of the \<open>TypeError\<close> that \<open>JSON.stringify\<close> throws (\<open>Inl\<close>), as it
  does on a value that holds a \<open>BigInt\<close> or a cycle. An error made by \<open>new Error(m)\<close>, and a
  \<open>TypeError\<close> of the runtime, has no enumerable property and is printed as \<open>{}\<close>.
\<close>

datatype js_error = JsError (message: string) (json: "string + string")

definition new_Error :: "string \<Rightarrow> js_error" where
  "new_Error m = JsError m (Inr ''{}'')"

text \<open>\<open>JSON.stringify(error)\<close> inside \<open>Logger.formatMessage\<close>: the text, or the error thrown.\<close>

definition JSON_stringify :: "js_error \<Rightarrow> js_error + string" where
  "JSON_stringify e = (case json e of Inl m \<Rightarrow> Inl (new_Error m) | Inr txt \<Rightarrow> Inr txt)"

datatype fetch_result = NetworkError js_error | Response nat string

text \<open>
  What the node does to the outside and to its active set, in program order: a call of the
  logger that returned, with the line it formats, a request sent to the dispatcher,
  \<open>activeOffers.set\<close>, \<open>activeOffers.delete\<close>. Log texts are kept without their leading
  emoji, time stamp and component prefix; \<open>logger.debug\<close> formats and prints its line only
  when \<open>LOG_LEVEL\<close> is \<open>debug\<close>. \<open>LogNumber lv before x after\<close> is the line made of \<open>before\<close>,
  \<open>String(x)\<close> and \<open>after\<close> for a number \<open>x\<close> read from the environment, the configuration
  or the clock: the number is kept and how \<open>String\<close> prints it is not modelled.
\<close>

datatype event =
    Log level string
  | LogNumber level string number string
  | AcceptRequest offer_acceptance
  | ReceiptRequest execution_receipt
  | HeartbeatRequest heartbeat_data
  | ActiveSet string
  | ActiveDelete string

record metrics =
  offersReceived :: nat
  offersAccepted :: nat
  offersCompleted :: nat
  offersFailed :: nat
  heartbeats :: nat
  heartbeatErrors :: nat
  executionTimes :: "int list"

record node_config =
  version :: string
  maxConcurrent :: int
  retryMax :: int

text \<open>
  The state of a \<open>ShhNode\<close> with the objects it owns: the running flag, the active-offer
  map (an association list with one entry per key, in insertion order), whether the
  heartbeat timer is armed, the wallet manager shared with the executor, the counters of
  \<open>Metrics\<close>, the part of \<open>config.json\<close> that is read, the environment variable
  \<open>MAX_PER_TX_LAMPORTS\<close>, and the trace.
\<close>

record node =
  isRunning :: bool
  activeOffers :: "(string \<times> offer) list"
  heartbeatInterval :: bool
  walletManager :: wallet_manager
  metrics :: metrics
  config :: node_config
  MAX_PER_TX_LAMPORTS :: "string option"
  trace :: "event list"

definition emit :: "event \<Rightarrow> node \<Rightarrow> node" where
  "emit e s = s\<lparr>trace := trace s @ [e]\<rparr>"

text \<open>
  The logger called with a message alone: \<open>formatMessage\<close> returns the message and the line
  is written. Called with an error as an extra argument, \<open>formatMessage\<close> appends a space and
  \<open>JSON.stringify(error)\<close> to the message, and throws when that throws: no line is written then.
\<close>

definition logger :: "level \<Rightarrow> string \<Rightarrow> node \<Rightarrow> node" where
  "logger lv msg s = emit (Log lv msg) s"

definition logger_number :: "level \<Rightarrow> string \<Rightarrow> number \<Rightarrow> string \<Rightarrow> node \<Rightarrow> node" where
  "logger_number lv before x after s = emit (LogNumber lv before x after) s"

definition logger_error :: "level \<Rightarrow> string \<Rightarrow> js_error \<Rightarrow> node \<Rightarrow> (js_error + unit) \<times> node" where
  "logger_error lv msg e s =
     (case JSON_stringify e of
        Inl t \<Rightarrow> (Inl t, s)
      | Inr txt \<Rightarrow> (Inr (), logger lv (msg @ '' '' @ txt) s))"

text \<open>\<open>Map.size\<close>: the number of distinct keys.\<close>

definition activeSize :: "node \<Rightarrow> nat" where
  "activeSize s = length (remdups (map fst (activeOffers s)))"

definition activeSet :: "offer \<Rightarrow> node \<Rightarrow> node" where
  "activeSet off s =
     emit (ActiveSet (oid off)) (s\<lparr>activeOffers := AList.update (oid off) off (activeOffers s)\<rparr>)"

definition activeDelete :: "string \<Rightarrow> node \<Rightarrow> node" where
  "activeDelete k s =
     emit (ActiveDelete k) (s\<lparr>activeOffers := AList.delete k (activeOffers s)\<rparr>)"

definition recordOfferAccepted :: "node \<Rightarrow> node" where
  "recordOfferAccepted s = s\<lparr>metrics := (metrics s)\<lparr>offersAccepted := offersAccepted (metrics s) + 1\<rparr>\<rparr>"

definition recordOfferCompleted :: "int \<Rightarrow> node \<Rightarrow> node" where
  "recordOfferCompleted ms s =
     (let ts = executionTimes (metrics s) @ [ms]
      in s\<lparr>metrics := (metrics s)
            \<lparr>offersCompleted := offersCompleted (metrics s) + 1,
             executionTimes := (if 100 < length ts then tl ts else ts)\<rparr>\<rparr>)"

definition recordOfferFailed :: "node \<Rightarrow> node" where
  "recordOfferFailed s = s\<lparr>metrics := (metrics s)\<lparr>offersFailed := offersFailed (metrics s) + 1\<rparr>\<rparr>"

definition recordHeartbeat :: "node \<Rightarrow> node" where
  "recordHeartbeat s = s\<lparr>metrics := (metrics s)\<lparr>heartbeats := heartbeats (metrics s) + 1\<rparr>\<rparr>"

definition recordHeartbeatError :: "node \<Rightarrow> node" where
  "recordHeartbeatError s =
     s\<lparr>metrics := (metrics s)\<lparr>heartbeatErrors := heartbeatErrors (metrics s) + 1\<rparr>\<rparr>"

section \<open>DispatcherClient\<close>

text \<open>
  \<open>fetch\<close> either rejects (a transport error) or resolves to a response with a status and a
  status text; \<open>response.ok\<close> is a status in 200..299. The answer of the dispatcher is an
  input of each call. Signing the headers is taken not to fail. \<open>Inl\<close> is the error thrown
  to the caller.
\<close>

definition response_ok :: "nat \<Rightarrow> bool" where
  "response_ok st = (200 \<le> st \<and> st \<le> 299)"

definition acceptOffer :: "fetch_result \<Rightarrow> offer_acceptance \<Rightarrow> node \<Rightarrow> (js_error + bool) \<times> node" where
  "acceptOffer resp acceptance s =
     (let s1 = emit (AcceptRequest acceptance) s
      in case resp of
           NetworkError e \<Rightarrow> (Inl e, s1)
         | Response st txt \<Rightarrow>
             if st = 409 then (Inr False, s1)
             else if \<not> response_ok st then (Inl (new_Error (''Failed to accept offer: '' @ txt)), s1)
             else (Inr True, s1))"

definition submitReceipt :: "fetch_result \<Rightarrow> execution_receipt \<Rightarrow> node \<Rightarrow> (js_error + unit) \<times> node" where
  "submitReceipt resp receipt s =
     (let s1 = emit (ReceiptRequest receipt) s
      in case resp of
           NetworkError e \<Rightarrow> (Inl e, s1)
         | Response st txt \<Rightarrow>
             if \<not> response_ok st then (Inl (new_Error (''Failed to submit receipt: '' @ txt)), s1)
             else (Inr (), s1))"

definition sendHeartbeat :: "fetch_result \<Rightarrow> heartbeat_data \<Rightarrow> node \<Rightarrow> (js_error + unit) \<times> node" where
  "sendHeartbeat resp heartbeat s =
     (let s1 = emit (HeartbeatRequest heartbeat) s
      in case resp of
           NetworkError e \<Rightarrow> (Inl e, s1)
         | Response st txt \<Rightarrow>
             if \<not> response_ok st then (Inr (), logger WARN (''Heartbeat failed: '' @ txt) s1)
             else (Inr (), s1))"

section \<open>ShhNode: admission\<close>

text \<open>\<open>parseInt(process.env.MAX_PER_TX_LAMPORTS || '500000000')\<close>: an unset or empty variable
  gives the default.\<close>

definition maxPerTx :: "node \<Rightarrow> number" where
  "maxPerTx s =
     parseInt (case MAX_PER_TX_LAMPORTS s of
                 None \<Rightarrow> ''500000000''
               | Some v \<Rightarrow> if v = [] then ''500000000'' else v)"

text \<open>
  \<open>validateOffer\<close>, with the reading of the clock as an argument. \<open>offer.expiresAt && ...\<close>
  skips the expiry test when the field is absent or 0.
\<close>

definition validateOffer :: "int \<Rightarrow> offer \<Rightarrow> node \<Rightarrow> bool \<times> node" where
  "validateOffer now off s =
     (if asset off = ''SOL'' \<and> number_gt (parseInt (amount off)) (maxPerTx s) then
        (False, logger_number WARN
                  (''Offer '' @ oid off @ '' exceeds per-tx limit: '' @ amount off @ '' > '')
                  (maxPerTx s) [] s)
      else if maxConcurrent (config s) \<le> int (activeSize s) then
        (False, logger_number WARN (''At capacity: '' @ decimal (activeSize s) @ ''/'')
                  (Num (maxConcurrent (config s))) [] s)
      else if (case expiresAt off of None \<Rightarrow> False | Some e \<Rightarrow> e \<noteq> 0 \<and> e < now) then
        (False, logger WARN (''Offer '' @ oid off @ '' has expired'') s)
      else (True, s))"

section \<open>TransactionExecutor\<close>

text \<open>
  The chain and the Solana libraries are outside the repository. What each of their calls
  answers is an input: whether \<open>new PublicKey(text)\<close> throws, whether building an
  instruction throws, the latest block hash, the associated token address of an owner,
  whether the recipient's token account exists (\<open>getAccount\<close> resolves) and what
  \<open>sendAndConfirmTransaction\<close> returns (a signature, or an error such as a confirmation
  timeout), together with the readings of the clock.
\<close>

datatype instruction =
    SystemTransfer string string number
  | CreateAssociatedTokenAccount string string string string
  | TokenTransfer string string string number

record transaction =
  instructions :: "instruction list"
  recentBlockhash :: "string option"
  feePayer :: "string option"

record chain_oracle =
  publicKeyError :: "string \<Rightarrow> js_error option"
  instructionError :: "instruction \<Rightarrow> js_error option"
  getLatestBlockhash :: "js_error + string"
  getAssociatedTokenAddress :: "string \<Rightarrow> string \<Rightarrow> js_error + string"
  getAccount :: "string \<Rightarrow> bool"
  sendAndConfirmTransaction :: "transaction \<Rightarrow> keypair list \<Rightarrow> int \<Rightarrow> js_error + string"
  executionTime :: int
  receiptTime :: int

definition USDC_MINT :: string where
  "USDC_MINT = ''EPjFWdd5AufqSSqeM2qN1xzybapC8G4wEGGkZwyTDt1v''"

definition LAMPORTS_PER_SOL :: int where
  "LAMPORTS_PER_SOL = 1000000000"

text \<open>Reading \<open>.publicKey\<close> of \<open>undefined\<close> throws a \<open>TypeError\<close>.\<close>

definition undefined_publicKey :: js_error where
  "undefined_publicKey = new_Error ''Cannot read properties of undefined (reading publicKey)''"

definition createSOLTransfer ::
  "chain_oracle \<Rightarrow> keypair option \<Rightarrow> string \<Rightarrow> string \<Rightarrow> js_error + transaction" where
  "createSOLTransfer orc fromWallet recipientKey amt =
     (let lamports = parseInt amt
      in case fromWallet of
           None \<Rightarrow> Inl undefined_publicKey
         | Some kp \<Rightarrow>
             (case instructionError orc (SystemTransfer (pubkeyText kp) recipientKey lamports) of
                Some e \<Rightarrow> Inl e
              | None \<Rightarrow>
                  (case getLatestBlockhash orc of
                     Inl e \<Rightarrow> Inl e
                   | Inr blockhash \<Rightarrow>
                       Inr \<lparr>instructions = [SystemTransfer (pubkeyText kp) recipientKey lamports],
                            recentBlockhash = Some blockhash,
                            feePayer = Some (pubkeyText kp)\<rparr>)))"

text \<open>
  The second half of \<open>createUSDCTransfer\<close>, after the recipient's token account has been
  looked up: the transfer instruction is added and the block hash fetched.
\<close>

definition addUSDCTransfer ::
  "chain_oracle \<Rightarrow> keypair \<Rightarrow> string \<Rightarrow> string \<Rightarrow> number \<Rightarrow> instruction list \<Rightarrow> number
     \<Rightarrow> js_error + (transaction \<times> number)" where
  "addUSDCTransfer orc kp fromATA toATA usdcAmount ins feesPaid =
     (case instructionError orc (TokenTransfer fromATA toATA (pubkeyText kp) usdcAmount) of
        Some e \<Rightarrow> Inl e
      | None \<Rightarrow>
          (case getLatestBlockhash orc of
             Inl e \<Rightarrow> Inl e
           | Inr blockhash \<Rightarrow>
               Inr (\<lparr>instructions = ins @ [TokenTransfer fromATA toATA (pubkeyText kp) usdcAmount],
                     recentBlockhash = Some blockhash,
                     feePayer = Some (pubkeyText kp)\<rparr>, feesPaid)))"

text \<open>
  \<open>createUSDCTransfer\<close>: when \<open>getAccount\<close> throws, an instruction creating the recipient's
  token account is added and \<open>0.002 * LAMPORTS_PER_SOL\<close> (2000000) is added to the fees.
\<close>

definition createUSDCTransfer ::
  "chain_oracle \<Rightarrow> keypair option \<Rightarrow> string \<Rightarrow> string \<Rightarrow> node
     \<Rightarrow> (js_error + (transaction \<times> number)) \<times> node" where
  "createUSDCTransfer orc fromWallet recipientKey amt s =
     (let usdcAmount = parseInt amt
      in case fromWallet of
           None \<Rightarrow> (Inl undefined_publicKey, s)
         | Some kp \<Rightarrow>
             (case getAssociatedTokenAddress orc USDC_MINT (pubkeyText kp) of
                Inl e \<Rightarrow> (Inl e, s)
              | Inr fromATA \<Rightarrow>
                  (case getAssociatedTokenAddress orc USDC_MINT recipientKey of
                     Inl e \<Rightarrow> (Inl e, s)
                   | Inr toATA \<Rightarrow>
                       if getAccount orc toATA then
                         (addUSDCTransfer orc kp fromATA toATA usdcAmount [] (Num 0), s)
                       else
                         (let s1 = logger INFO (''Creating USDC ATA for recipient: '' @ toATA) s
                          in case instructionError orc
                                    (CreateAssociatedTokenAccount (pubkeyText kp) toATA recipientKey USDC_MINT) of
                               Some e \<Rightarrow> (Inl e, s1)
                             | None \<Rightarrow>
                                 (addUSDCTransfer orc kp fromATA toATA usdcAmount
                                    [CreateAssociatedTokenAccount (pubkeyText kp) toATA recipientKey USDC_MINT]
                                    (Num (0 + 2 * LAMPORTS_PER_SOL div 1000)), s1)))))"

text \<open>
  The branch of \<open>execute\<close> on the asset: the transaction to send and the amount that the
  receipt will report as spent.
\<close>

definition execute_transfer ::
  "chain_oracle \<Rightarrow> offer \<Rightarrow> keypair option \<Rightarrow> node \<Rightarrow> (js_error + (transaction \<times> number)) \<times> node" where
  "execute_transfer orc off fromWallet s =
     (if asset off = ''SOL'' then
        (case createSOLTransfer orc fromWallet (recipient off) (amount off) of
           Inl e \<Rightarrow> (Inl e, s)
         | Inr tx \<Rightarrow> (Inr (tx, parseInt (amount off)), s))
      else if asset off = ''USDC'' then
        createUSDCTransfer orc fromWallet (recipient off) (amount off) s
      else (Inl (new_Error (''Unsupported asset: '' @ asset off)), s))"

text \<open>
  The body of the \<open>try\<close> block of \<open>execute\<close> up to the confirmed signature. The wallet is
  taken first, so the cursor has moved even when a later step throws.
\<close>

definition execute_try ::
  "chain_oracle \<Rightarrow> offer \<Rightarrow> node \<Rightarrow> (js_error + (string \<times> number)) \<times> node" where
  "execute_try orc off s =
     (let s1 = logger INFO (''Executing offer '' @ oid off @ '' ('' @ asset off @ '' ''
                            @ amount off @ '')'') s
      in case getNextRelayWallet (walletManager s1) of
           Inl m \<Rightarrow> (Inl (new_Error m), s1)
         | Inr (fromWallet, wm) \<Rightarrow>
             (let s2 = s1\<lparr>walletManager := wm\<rparr>
              in case publicKeyError orc (recipient off) of
                   Some e \<Rightarrow> (Inl e, s2)
                 | None \<Rightarrow>
                     (case execute_transfer orc off fromWallet s2 of
                        (Inl e, s3) \<Rightarrow> (Inl e, s3)
                      | (Inr (tx, spent), s3) \<Rightarrow>
                          (case sendAndConfirmTransaction orc tx
                                  (case fromWallet of None \<Rightarrow> [] | Some kp \<Rightarrow> [kp])
                                  (retryMax (config s3)) of
                             Inl e \<Rightarrow> (Inl e, s3)
                           | Inr signature \<Rightarrow>
                               (Inr (signature, spent),
                                logger_number INFO (''Executed '' @ oid off @ '' in '')
                                  (Num (executionTime orc)) (''ms ('' @ signature @ '')'') s3)))))"

text \<open>The receipt built by the \<open>catch\<close> block of \<open>execute\<close> for an error with message \<open>e\<close>.\<close>

definition failure_receipt :: "chain_oracle \<Rightarrow> offer \<Rightarrow> string \<Rightarrow> execution_receipt" where
  "failure_receipt orc off e =
     \<lparr>rPartId = partId off, txSignature = [], spentLamports = Num 0, feePaid = 0,
      rTimestamp = receiptTime orc, success = False, err = Some e\<rparr>"

text \<open>
  \<open>execute\<close>: the receipt of a confirmed transfer, or, from the \<open>catch\<close> block, the receipt
  of a failure. The \<open>catch\<close> block first passes the caught error to \<open>logger.error\<close> as an
  extra argument and then builds the receipt: when the logger throws, nothing catches it
  and \<open>execute\<close> throws to its caller (\<open>Inl\<close>).
\<close>

definition execute :: "chain_oracle \<Rightarrow> offer \<Rightarrow> node \<Rightarrow> (js_error + execution_receipt) \<times> node" where
  "execute orc off s =
     (case execute_try orc off s of
        (Inr (signature, spent), s1) \<Rightarrow>
          (Inr \<lparr>rPartId = partId off, txSignature = signature, spentLamports = spent,
                feePaid = feeLamports off, rTimestamp = receiptTime orc, success = True,
                err = None\<rparr>, s1)
      | (Inl e, s1) \<Rightarrow>
          (case JSON_stringify e of
             Inl t \<Rightarrow> (Inl t, s1)
           | Inr txt \<Rightarrow>
               (Inr (failure_receipt orc off (message e)),
                logger_number ERROR (''Failed to execute '' @ oid off @ '' after '')
                  (Num (executionTime orc)) (''ms: '' @ txt) s1)))"

section \<open>ShhNode: handling an offer\<close>

text \<open>
  What the outside answers while one offer is handled: the dispatcher's answers to the claim
  and to the receipt, the chain's answers, and the readings of the clock. One call of
  \<open>handleOffer\<close> is one run from the state it starts in: every awaited call answers, and
  other handlers running between its awaits are not part of the run.
\<close>

record offer_oracle =
  startTime :: int
  validateTime :: int
  acceptTime :: int
  acceptResponse :: fetch_result
  chain :: chain_oracle
  receiptResponse :: fetch_result
  doneTime :: int

text \<open>The body of the \<open>try\<close> block of \<open>handleOffer\<close>; \<open>Inl\<close> is an error thrown out of it.\<close>

definition handleOffer_try :: "offer_oracle \<Rightarrow> offer \<Rightarrow> node \<Rightarrow> (js_error + unit) \<times> node" where
  "handleOffer_try orc off s =
     (let s1 = logger INFO (''Received offer '' @ oid off @ '' ('' @ asset off @ '' ''
                            @ amount off @ '')'') s
      in case validateOffer (validateTime orc) off s1 of
           (False, s2) \<Rightarrow> (Inr (), logger WARN (''Invalid offer '' @ oid off @ '', skipping'') s2)
         | (True, s2) \<Rightarrow>
             (case acceptOffer (acceptResponse orc)
                     \<lparr>offerId = oid off,
                      nodeId = pubkeyText (nodeKeypair (walletManager s2)),
                      timestamp = acceptTime orc\<rparr> s2 of
                (Inl e, s3) \<Rightarrow> (Inl e, s3)
              | (Inr False, s3) \<Rightarrow>
                  (Inr (), logger INFO (''Offer '' @ oid off @ '' was claimed by another node'') s3)
              | (Inr True, s3) \<Rightarrow>
                  (let s4 = logger INFO (''Accepted offer '' @ oid off @ '', executing...'')
                              (recordOfferAccepted (activeSet off s3))
                   in case execute (chain orc) off s4 of
                        (Inl e, s5) \<Rightarrow> (Inl e, s5)
                      | (Inr receipt, s5) \<Rightarrow>
                          (case submitReceipt (receiptResponse orc) receipt s5 of
                             (Inl e, s6) \<Rightarrow> (Inl e, s6)
                           | (Inr u, s6) \<Rightarrow>
                               (Inr (),
                                logger INFO (''Completed offer '' @ oid off @ '' ('' @ txSignature receipt @ '')'')
                                  (recordOfferCompleted (doneTime orc - startTime orc)
                                     (activeDelete (oid off) s6)))))))"

text \<open>
  \<open>handleOffer\<close>: the \<open>try\<close> block and its \<open>catch\<close>, which deletes the offer from the active
  set, counts the failure and then passes the caught error to \<open>logger.error\<close>. \<open>Inl\<close> is an
  error thrown by that last call, which rejects the promise of \<open>handleOffer\<close>.
\<close>

definition handleOffer :: "offer_oracle \<Rightarrow> offer \<Rightarrow> node \<Rightarrow> (js_error + unit) \<times> node" where
  "handleOffer orc off s =
     (case handleOffer_try orc off s of
        (Inr u, s1) \<Rightarrow> (Inr (), s1)
      | (Inl e, s1) \<Rightarrow>
          logger_error ERROR (''Failed to execute offer '' @ oid off @ '':'') e
            (recordOfferFailed (activeDelete (oid off) s1)))"


section \<open>Balances, health and heartbeat\<close>

text \<open>
  The RPC node is outside the repository: \<open>getBalance\<close> answers a number of lamports or
  throws (\<open>Inl\<close>: the text that the template of the log line makes of the thrown value),
  and the lookup of the USDC token account answers an amount or fails (\<open>None\<close>).
  \<open>heartbeatInterval\<close> of the node state says whether the timer is armed.
\<close>

record rpc_oracle =
  getBalance :: "string \<Rightarrow> string + nat"
  getTokenAmount :: "string \<Rightarrow> nat option"
  uptime :: int
  heartbeatTime :: int
  heartbeatResponse :: fetch_result

text \<open>The loop of \<open>getBalances\<close> over \<open>relayKeypairs.entries()\<close>, from index \<open>i\<close>.\<close>

fun getBalances_from :: "rpc_oracle \<Rightarrow> nat \<Rightarrow> keypair list \<Rightarrow> node \<Rightarrow> wallet_balance list \<times> node" where
  "getBalances_from rpc i [] s = ([], s)"
| "getBalances_from rpc i (kp # kps) s =
     (case (case getBalance rpc (pubkeyText kp) of
              Inr lamports \<Rightarrow>
                (\<lparr>publicKey = pubkeyText kp,
                  balanceSOL = of_nat lamports / of_int LAMPORTS_PER_SOL,
                  balanceUSDC = map_option (\<lambda>a. of_nat a / 1000000) (getTokenAmount rpc (pubkeyText kp)),
                  isActive = (1 / 1000 \<le> (of_nat lamports / of_int LAMPORTS_PER_SOL :: rat))\<rparr>, s)
            | Inl e \<Rightarrow>
                (\<lparr>publicKey = pubkeyText kp, balanceSOL = 0, balanceUSDC = None, isActive = False\<rparr>,
                 logger WARN (''Failed to get balance for wallet '' @ decimal (i + 1) @ '': '' @ e) s)) of
        (b, s1) \<Rightarrow>
          (case getBalances_from rpc (i + 1) kps s1 of
             (bs, s2) \<Rightarrow> (b # bs, s2)))"

definition getBalances :: "rpc_oracle \<Rightarrow> node \<Rightarrow> wallet_balance list \<times> node" where
  "getBalances rpc s = getBalances_from rpc 0 (relayKeypairs (walletManager s)) s"

text \<open>The threshold \<open>minBalance = 0.01\<close> of \<open>validateBalances\<close> and \<open>getHealthStatus\<close>.\<close>

definition minBalance :: rat where
  "minBalance = 1 / 100"

definition lowBalanceWallets :: "wallet_balance list \<Rightarrow> wallet_balance list" where
  "lowBalanceWallets balances = filter (\<lambda>w. balanceSOL w < minBalance) balances"

definition validateBalances :: "rpc_oracle \<Rightarrow> node \<Rightarrow> (string + unit) \<times> node" where
  "validateBalances rpc s =
     (case getBalances rpc s of
        (balances, s1) \<Rightarrow>
          (let low = lowBalanceWallets balances;
               s2 = (if 0 < length low
                     then logger WARN (''Low balance wallets (< 0.01 SOL): ''
                                       @ join '', '' (map publicKey low)) s1
                     else s1)
           in if length low = length balances
              then (Inl ''All wallets have insufficient balance. Please fund your relay wallets.'', s2)
              else (Inr (),
                    logger INFO (decimal (length balances - length low) @ ''/''
                                 @ decimal (length balances) @ '' wallets properly funded'') s2)))"

text \<open>
  The health report: \<open>hsMetrics\<close> holds the counters of the metrics snapshot (its average
  and its uptime are arithmetic on the clock and are left out).
\<close>

record health_status =
  hsStatus :: health
  hsUptime :: int
  hsWallets :: "wallet_balance list"
  hsActiveOffers :: nat
  hsMetrics :: metrics

definition getHealthStatus :: "rpc_oracle \<Rightarrow> node \<Rightarrow> health_status \<times> node" where
  "getHealthStatus rpc s =
     (case getBalances rpc s of
        (wallets, s1) \<Rightarrow>
          (let low = lowBalanceWallets wallets;
               status = (if 0 < length low
                         then (if length low = length wallets then unhealthy else degraded)
                         else healthy)
           in (\<lparr>hsStatus = status, hsUptime = uptime rpc, hsWallets = wallets,
                 hsActiveOffers = activeSize s1, hsMetrics = metrics s1\<rparr>, s1)))"

text \<open>The status that \<open>getHealthStatus\<close> computes, as a function of the SOL balances alone.\<close>

definition status_of_balances :: "rat list \<Rightarrow> health" where
  "status_of_balances bs =
     (if \<forall>b\<in>set bs. \<not> b < 1 / 100 then healthy
      else if \<forall>b\<in>set bs. b < 1 / 100 then unhealthy
      else degraded)"

text \<open>The body of the \<open>try\<close> block of the timer callback of \<open>startHeartbeat\<close>.\<close>

definition startHeartbeat_try :: "rpc_oracle \<Rightarrow> node \<Rightarrow> (js_error + unit) \<times> node" where
  "startHeartbeat_try rpc s =
     (case getHealthStatus rpc s of
        (status, s1) \<Rightarrow>
          (case sendHeartbeat (heartbeatResponse rpc)
                  \<lparr>hbTimestamp = heartbeatTime rpc, hbStatus = hsStatus status,
                   hbBalances = hsWallets status, hbActiveOffers = activeSize s1,
                   hbVersion = version (config s1)\<rparr> s1 of
             (Inl e, s2) \<Rightarrow> (Inl e, s2)
           | (Inr u, s2) \<Rightarrow> (Inr (), logger DEBUG ''Heartbeat sent'' (recordHeartbeat s2))))"

text \<open>
  One firing of the timer set by \<open>startHeartbeat\<close>: the \<open>try\<close> block and its \<open>catch\<close>, which
  passes the caught error to \<open>logger.warn\<close> and then counts it. \<open>Inl\<close> is an error thrown
  by the logger there: the callback rejects and the error is not counted.
\<close>

definition startHeartbeat_tick :: "rpc_oracle \<Rightarrow> node \<Rightarrow> (js_error + unit) \<times> node" where
  "startHeartbeat_tick rpc s =
     (case startHeartbeat_try rpc s of
        (Inr u, s1) \<Rightarrow> (Inr (), s1)
      | (Inl e, s1) \<Rightarrow>
          (case logger_error WARN ''Heartbeat failed:'' e s1 of
             (Inl t, s2) \<Rightarrow> (Inl t, s2)
           | (Inr u, s2) \<Rightarrow> (Inr (), recordHeartbeatError s2)))"

section \<open>Examples\<close>

text \<open>
  A node with three relay wallets and the default limits, a base-asset offer of 10,000,000
  lamports, a chain on which every call succeeds and the transfer confirms with signature
  \<open>SIG1\<close>, and a dispatcher that answers 200 to every request.
\<close>

definition example_wallets :: wallet_manager where
  "example_wallets =
     \<lparr>nodeKeypair = Keypair ''NODE'',
      relayKeypairs = [Keypair ''R1'', Keypair ''R2'', Keypair ''R3''],
      currentRelayIndex = 0\<rparr>"

definition example_node :: node where
  "example_node =
     \<lparr>isRunning = True, activeOffers = [], heartbeatInterval = True,
      walletManager = example_wallets,
      metrics = \<lparr>offersReceived = 0, offersAccepted = 0, offersCompleted = 0, offersFailed = 0,
                 heartbeats = 0, heartbeatErrors = 0, executionTimes = []\<rparr>,
      config = \<lparr>version = ''1.0.0'', maxConcurrent = 5, retryMax = 3\<rparr>,
      MAX_PER_TX_LAMPORTS = None, trace = []\<rparr>"

definition example_offer :: offer where
  "example_offer =
     \<lparr>oid = ''offer-1'', partId = ''part-1'', asset = ''SOL'', amount = ''10000000'',
      recipient = ''RCPT'', feeLamports = 5000, expiresAt = None\<rparr>"

definition example_chain :: chain_oracle where
  "example_chain =
     \<lparr>publicKeyError = (\<lambda>k. None), instructionError = (\<lambda>i. None),
      getLatestBlockhash = Inr ''HASH'',
      getAssociatedTokenAddress = (\<lambda>mint owner. Inr (''ATA-'' @ owner)),
      getAccount = (\<lambda>ata. False),
      sendAndConfirmTransaction = (\<lambda>tx signers retries. Inr ''SIG1''),
      executionTime = 120, receiptTime = 2000\<rparr>"

definition example_oracle :: offer_oracle where
  "example_oracle =
     \<lparr>startTime = 1000, validateTime = 1001, acceptTime = 1002,
      acceptResponse = Response 200 ''OK'', chain = example_chain,
      receiptResponse = Response 200 ''OK'', doneTime = 2001\<rparr>"

text \<open>
  An error that the logger cannot print: \<open>JSON.stringify\<close> throws on it, as on the error
  with which a number codec rejects an amount outside the range of an unsigned 64-bit
  integer when that error carries the bounds and the amount as \<open>BigInt\<close> values.
\<close>

definition example_bigint_error :: js_error where
  "example_bigint_error =
     JsError ''Codec [u64] expected number to be in the range [0, 18446744073709551615], got -5.''
       (Inl ''Do not know how to serialize a BigInt'')"

text \<open>An RPC node on which the three relay wallets hold 0.005, 0.02 and 0 SOL.\<close>

definition example_rpc :: rpc_oracle where
  "example_rpc =
     \<lparr>getBalance = (\<lambda>k. if k = ''R1'' then Inr 5000000 else if k = ''R2'' then Inr 20000000 else Inr 0),
      getTokenAmount = (\<lambda>k. None),
      uptime = 60, heartbeatTime = 3000, heartbeatResponse = Response 200 ''OK''\<rparr>"

section \<open>Reading the trace\<close>

text \<open>The events that a run from state \<open>s\<close> to state \<open>s'\<close> added to the trace.\<close>

definition events_since :: "node \<Rightarrow> node \<Rightarrow> event list" where
  "events_since s s' = drop (length (trace s)) (trace s')"

fun is_log :: "event \<Rightarrow> bool" where
  "is_log (Log lv msg) = True"
| "is_log (LogNumber lv before x after) = True"
| "is_log _ = False"

text \<open>
  A run from \<open>s\<close> to \<open>s'\<close> that only wrote log lines (and possibly moved the wallet
  cursor): every other field is as before and the trace grew by log events.
\<close>

definition extends_by_logs :: "node \<Rightarrow> node \<Rightarrow> bool" where
  "extends_by_logs s s' \<longleftrightarrow>
     activeOffers s' = activeOffers s \<and> metrics s' = metrics s \<and> config s' = config s \<and>
     isRunning s' = isRunning s \<and> heartbeatInterval s' = heartbeatInterval s \<and>
     MAX_PER_TX_LAMPORTS s' = MAX_PER_TX_LAMPORTS s \<and>
     take (length (trace s)) (trace s') = trace s \<and> list_all is_log (events_since s s')"

section \<open>Decimal numerals are read back by \<open>parseInt\<close>\<close>

lemma digit_of_digit_char: "d < 10 \<Longrightarrow> digit_of 10 (digit_char d) = Some d"
  by (simp add: digit_of_def digit_char_def Let_def)

lemma decimal_digits: "c \<in> set (decimal n) \<Longrightarrow> \<exists>d<10. c = digit_char d"
proof (induction n rule: decimal.induct)
  case (1 n)
  show ?case
  proof (cases "n < 10")
    case True
    with "1.prems" show ?thesis by (subst (asm) decimal.simps) auto
  next
    case False
    with "1.prems" have "c \<in> set (decimal (n div 10)) \<or> c = digit_char (n mod 10)"
      by (subst (asm) decimal.simps) auto
    then show ?thesis
    proof
      assume "c \<in> set (decimal (n div 10))"
      with "1.IH" False show ?thesis by blast
    next
      assume "c = digit_char (n mod 10)"
      moreover have "n mod 10 < 10" by simp
      ultimately show ?thesis by blast
    qed
  qed
qed

lemma decimal_nonempty: "decimal n \<noteq> []"
  by (subst decimal.simps) simp

lemma leading_digits_all:
  "(\<And>c. c \<in> set cs \<Longrightarrow> \<exists>d<10. c = digit_char d) \<Longrightarrow>
   leading_digits 10 cs = map (\<lambda>c. of_char c - 48) cs"
proof (induction cs)
  case Nil
  then show ?case by simp
next
  case (Cons c cs)
  from Cons.prems [of c] obtain d where d: "d < 10" "c = digit_char d" by auto
  have "of_char c - 48 = d" using d by (simp add: digit_char_def)
  with Cons d show ?case by (simp add: digit_of_digit_char)
qed

lemma digits_value_snoc: "digits_value R (ds @ [d]) = digits_value R ds * int R + int d"
  by (simp add: digits_value_def)

lemma digits_value_decimal: "digits_value 10 (map (\<lambda>c. of_char c - 48) (decimal n)) = int n"
proof (induction n rule: decimal.induct)
  case (1 n)
  show ?case
  proof (cases "n < 10")
    case True
    then show ?thesis
      by (subst decimal.simps) (simp add: digits_value_def digit_char_def)
  next
    case False
    have m: "of_char (digit_char (n mod 10)) - 48 = n mod 10"
      by (simp add: digit_char_def)
    have "digits_value 10 (map (\<lambda>c. of_char c - 48) (decimal n)) =
          digits_value 10 (map (\<lambda>c. of_char c - 48) (decimal (n div 10))) * 10 + int (n mod 10)"
      using False by (subst decimal.simps) (simp add: digits_value_snoc m)
    also have "\<dots> = int (n div 10) * 10 + int (n mod 10)"
      using "1.IH" False by simp
    also have "\<dots> = int n"
      by (simp add: zdiv_int zmod_int)
    finally show ?thesis .
  qed
qed

lemma of_char_digit_char: "d < 10 \<Longrightarrow> (of_char (digit_char d) :: nat) = 48 + d"
  by (simp add: digit_char_def)

lemma digit_char_plain:
  assumes "d < 10"
  shows "\<not> is_space (digit_char d)" "digit_char d \<noteq> CHR ''-''" "digit_char d \<noteq> CHR ''+''"
    "digit_char d \<noteq> CHR ''x''" "digit_char d \<noteq> CHR ''X''"
proof -
  have v: "(of_char (digit_char d) :: nat) = 48 + d"
    using assms by (rule of_char_digit_char)
  show "\<not> is_space (digit_char d)"
    using assms by (simp add: is_space_def v)
  show "digit_char d \<noteq> CHR ''-''"
  proof
    assume "digit_char d = CHR ''-''"
    then have "(of_char (digit_char d) :: nat) = of_char CHR ''-''" by simp
    then show False using assms by (simp add: v)
  qed
  show "digit_char d \<noteq> CHR ''+''"
  proof
    assume "digit_char d = CHR ''+''"
    then have "(of_char (digit_char d) :: nat) = of_char CHR ''+''" by simp
    then show False using assms by (simp add: v)
  qed
  show "digit_char d \<noteq> CHR ''x''"
  proof
    assume "digit_char d = CHR ''x''"
    then have "(of_char (digit_char d) :: nat) = of_char CHR ''x''" by simp
    then show False using assms by (simp add: v)
  qed
  show "digit_char d \<noteq> CHR ''X''"
  proof
    assume "digit_char d = CHR ''X''"
    then have "(of_char (digit_char d) :: nat) = of_char CHR ''X''" by simp
    then show False using assms by (simp add: v)
  qed
qed

lemma parseInt_decimal_double: "parseInt (decimal n) = to_double (int n)"
proof -
  have dig: "\<And>c. c \<in> set (decimal n) \<Longrightarrow> \<exists>d<10. c = digit_char d"
    by (rule decimal_digits)
  obtain c cs where dc: "decimal n = c # cs"
    using decimal_nonempty [of n] by (cases "decimal n") auto
  obtain d where d: "d < 10" "c = digit_char d"
    using dig [of c] dc by auto
  have c: "\<not> is_space c" "c \<noteq> CHR ''-''" "c \<noteq> CHR ''+''"
    using digit_char_plain [OF d(1)] d(2) by simp_all
  have t: "dropWhile is_space (decimal n) = decimal n"
    using dc c by simp
  have sign: "take 1 (decimal n) \<noteq> ''-''" "take 1 (decimal n) \<noteq> ''+''"
    using dc c by simp_all
  have nohex: "take 2 (decimal n) \<noteq> ''0x''" "take 2 (decimal n) \<noteq> ''0X''"
  proof -
    show "take 2 (decimal n) \<noteq> ''0x''"
    proof (cases cs)
      case Nil
      with dc show ?thesis by simp
    next
      case (Cons c2 cs2)
      then obtain d2 where "d2 < 10" "c2 = digit_char d2" using dig [of c2] dc by auto
      then have "c2 \<noteq> CHR ''x''" using digit_char_plain by simp
      with dc Cons show ?thesis by simp
    qed
    show "take 2 (decimal n) \<noteq> ''0X''"
    proof (cases cs)
      case Nil
      with dc show ?thesis by simp
    next
      case (Cons c2 cs2)
      then obtain d2 where "d2 < 10" "c2 = digit_char d2" using dig [of c2] dc by auto
      then have "c2 \<noteq> CHR ''X''" using digit_char_plain by simp
      with dc Cons show ?thesis by simp
    qed
  qed
  have ld: "leading_digits 10 (decimal n) = map (\<lambda>c. of_char c - 48) (decimal n)"
    using dig by (rule leading_digits_all)
  have ne: "leading_digits 10 (decimal n) \<noteq> []"
    unfolding ld using decimal_nonempty by simp
  have val: "digits_value 10 (leading_digits 10 (decimal n)) = int n"
    unfolding ld by (rule digits_value_decimal)
  show ?thesis
    unfolding parseInt_def Let_def t
    by (simp only: sign nohex ne val simp_thms if_False if_True mult_1)
qed

section \<open>Rounding to a double\<close>

lemma double_overflow_power: "double_overflow = 2 ^ 1024"
  by (simp add: double_overflow_def)

lemma ulp_small: "n < 9007199254740992 \<Longrightarrow> ulp n = 1"
  by (subst ulp.simps) simp

lemma ulp_large: "9007199254740992 \<le> n \<Longrightarrow> ulp n = 2 * ulp (n div 2)"
  by (subst ulp.simps) simp

lemma ulp_bounds: "4503599627370496 \<le> n \<Longrightarrow> 0 < ulp n \<and> 4503599627370496 * ulp n \<le> n"
proof (induction n rule: ulp.induct)
  case (1 n)
  show ?case
  proof (cases "n < 9007199254740992")
    case True
    then show ?thesis using "1.prems" by (simp add: ulp_small)
  next
    case False
    then have h: "4503599627370496 \<le> n div 2" by simp
    from "1.IH" [OF False h] have ih: "0 < ulp (n div 2)" "4503599627370496 * ulp (n div 2) \<le> n div 2"
      by simp_all
    have u: "ulp n = 2 * ulp (n div 2)" using False by (simp add: ulp_large)
    have "2 * (n div 2) \<le> n" by simp
    with ih show ?thesis unfolding u by linarith
  qed
qed

text \<open>Below \<open>2^53\<close> every integer is a double.\<close>

lemma to_double_exact: "\<bar>n\<bar> < 9007199254740992 \<Longrightarrow> to_double n = Num n"
  by (auto simp: to_double_def Let_def ulp_small double_overflow_def)

text \<open>From \<open>2^53\<close> on the nearest double is at least \<open>2^53\<close>, or infinite.\<close>

lemma to_double_large:
  assumes "9007199254740992 \<le> n"
  shows "to_double n = Infinity \<or> (\<exists>m\<ge>9007199254740992. to_double n = Num m)"
proof -
  define p where "p = ulp n"
  define q where "q = n div p"
  define q' where "q' = (if p < 2 * (n mod p) \<or> (2 * (n mod p) = p \<and> odd q) then q + 1 else q)"
  have n0: "\<bar>n\<bar> = n" "\<not> n < 0" using assms by simp_all
  have "4503599627370496 \<le> n" using assms by simp
  from ulp_bounds [OF this] have p0: "0 < p" and pn: "4503599627370496 * p \<le> n"
    by (simp_all add: p_def)
  have "0 < ulp (n div 2)"
    using ulp_bounds [of "n div 2"] assms by simp
  then have p2: "2 \<le> p"
    using ulp_large [OF assms] by (simp add: p_def)
  have "4503599627370496 * p div p \<le> n div p"
    using pn by (rule zdiv_mono1) (rule p0)
  then have q52: "4503599627370496 \<le> q"
    using p0 by (simp add: q_def)
  have "q \<le> q'" by (simp add: q'_def)
  with q52 have "4503599627370496 \<le> q'" by simp
  then have "4503599627370496 * 2 \<le> q' * p"
    using p2 by (intro mult_mono) simp_all
  then have big: "9007199254740992 \<le> q' * p" by simp
  have "to_double n = (if double_overflow \<le> q' * p then Infinity else Num (q' * p))"
    by (simp add: to_double_def Let_def n0 p_def q_def q'_def)
  with big show ?thesis by auto
qed

lemma to_double_gt:
  assumes "0 \<le> c" and "c < 9007199254740992" and "c < n"
  shows "number_gt (to_double n) (Num c)"
proof (cases "n < 9007199254740992")
  case True
  then have "to_double n = Num n" using assms by (intro to_double_exact) simp
  then show ?thesis using assms by simp
next
  case False
  then have "to_double n = Infinity \<or> (\<exists>m\<ge>9007199254740992. to_double n = Num m)"
    by (intro to_double_large) simp
  then show ?thesis using assms by auto
qed

lemma parseInt_decimal: "n < 9007199254740992 \<Longrightarrow> parseInt (decimal n) = Num (int n)"
  by (simp add: parseInt_decimal_double to_double_exact)

section \<open>Runs that only write log lines\<close>

lemma emit_fields:
  "trace (emit e s) = trace s @ [e]"
  "activeOffers (emit e s) = activeOffers s"
  "metrics (emit e s) = metrics s"
  "walletManager (emit e s) = walletManager s"
  "config (emit e s) = config s"
  "isRunning (emit e s) = isRunning s"
  "heartbeatInterval (emit e s) = heartbeatInterval s"
  "MAX_PER_TX_LAMPORTS (emit e s) = MAX_PER_TX_LAMPORTS s"
  by (simp_all add: emit_def)

lemma logger_fields:
  "trace (logger lv m s) = trace s @ [Log lv m]"
  "activeOffers (logger lv m s) = activeOffers s"
  "metrics (logger lv m s) = metrics s"
  "walletManager (logger lv m s) = walletManager s"
  "config (logger lv m s) = config s"
  "isRunning (logger lv m s) = isRunning s"
  "heartbeatInterval (logger lv m s) = heartbeatInterval s"
  "MAX_PER_TX_LAMPORTS (logger lv m s) = MAX_PER_TX_LAMPORTS s"
  by (simp_all add: logger_def emit_fields)

lemma logger_number_fields:
  "trace (logger_number lv m x a s) = trace s @ [LogNumber lv m x a]"
  "activeOffers (logger_number lv m x a s) = activeOffers s"
  "metrics (logger_number lv m x a s) = metrics s"
  "walletManager (logger_number lv m x a s) = walletManager s"
  "config (logger_number lv m x a s) = config s"
  "isRunning (logger_number lv m x a s) = isRunning s"
  "heartbeatInterval (logger_number lv m x a s) = heartbeatInterval s"
  "MAX_PER_TX_LAMPORTS (logger_number lv m x a s) = MAX_PER_TX_LAMPORTS s"
  by (simp_all add: logger_number_def emit_fields)

lemma JSON_stringify_new_Error: "JSON_stringify (new_Error m) = Inr ''{}''"
  by (simp add: JSON_stringify_def new_Error_def)

lemma JSON_stringify_text: "json e = Inr txt \<Longrightarrow> JSON_stringify e = Inr txt"
  by (simp add: JSON_stringify_def)

lemma JSON_stringify_throws: "json e = Inl m \<Longrightarrow> JSON_stringify e = Inl (new_Error m)"
  by (simp add: JSON_stringify_def)

lemma JSON_stringify_Inl: "JSON_stringify e = Inl t \<Longrightarrow> \<exists>m. json e = Inl m \<and> t = new_Error m"
  by (auto simp: JSON_stringify_def split: sum.splits)

lemma extends_refl: "extends_by_logs s s"
  by (simp add: extends_by_logs_def events_since_def)

lemma extends_traceI:
  "activeOffers s' = activeOffers s \<Longrightarrow> metrics s' = metrics s \<Longrightarrow> config s' = config s \<Longrightarrow>
   isRunning s' = isRunning s \<Longrightarrow> heartbeatInterval s' = heartbeatInterval s \<Longrightarrow>
   MAX_PER_TX_LAMPORTS s' = MAX_PER_TX_LAMPORTS s \<Longrightarrow>
   trace s' = trace s @ evs \<Longrightarrow> list_all is_log evs \<Longrightarrow> extends_by_logs s s'"
  by (simp add: extends_by_logs_def events_since_def)

lemma extends_traceD:
  "extends_by_logs s s' \<Longrightarrow> trace s' = trace s @ events_since s s'"
  unfolding extends_by_logs_def events_since_def
  by (metis append_take_drop_id)

lemma extends_logger: "extends_by_logs s s' \<Longrightarrow> extends_by_logs s (logger lv m s')"
proof -
  assume a: "extends_by_logs s s'"
  have t: "trace s' = trace s @ events_since s s'" using a by (rule extends_traceD)
  show ?thesis
    apply (rule extends_traceI [where evs = "events_since s s' @ [Log lv m]"])
    using a t by (simp_all add: extends_by_logs_def logger_fields)
qed

lemma extends_logger_number:
  "extends_by_logs s s' \<Longrightarrow> extends_by_logs s (logger_number lv m x a s')"
proof -
  assume a: "extends_by_logs s s'"
  have t: "trace s' = trace s @ events_since s s'" using a by (rule extends_traceD)
  show ?thesis
    apply (rule extends_traceI [where evs = "events_since s s' @ [LogNumber lv m x a]"])
    using a t by (simp_all add: extends_by_logs_def logger_number_fields)
qed

lemma extends_logger_error:
  "extends_by_logs s s' \<Longrightarrow> extends_by_logs s (snd (logger_error lv m e s'))"
  by (simp add: logger_error_def extends_logger split: sum.splits)

lemma extends_wallet: "extends_by_logs s s' \<Longrightarrow> extends_by_logs s (s'\<lparr>walletManager := wm\<rparr>)"
  by (simp add: extends_by_logs_def events_since_def)

lemma extends_trans: "extends_by_logs s s' \<Longrightarrow> extends_by_logs s' s'' \<Longrightarrow> extends_by_logs s s''"
proof -
  assume a: "extends_by_logs s s'" and b: "extends_by_logs s' s''"
  have t: "trace s' = trace s @ events_since s s'" using a by (rule extends_traceD)
  have u: "trace s'' = trace s' @ events_since s' s''" using b by (rule extends_traceD)
  show ?thesis
    apply (rule extends_traceI [where evs = "events_since s s' @ events_since s' s''"])
    using a b t u by (simp_all add: extends_by_logs_def)
qed

lemma createUSDCTransfer_extends:
  "extends_by_logs s (snd (createUSDCTransfer orc w r a s))"
  unfolding createUSDCTransfer_def Let_def
  by (simp add: extends_refl extends_logger split: option.splits sum.splits)

lemma execute_transfer_extends:
  "extends_by_logs s (snd (execute_transfer orc off w s))"
  unfolding execute_transfer_def
  by (simp add: extends_refl createUSDCTransfer_extends split: sum.splits)

lemma execute_try_extends:
  "extends_by_logs s (snd (execute_try orc off s))"
proof -
  let ?s1 = "logger INFO (''Executing offer '' @ oid off @ '' ('' @ asset off @ '' '' @ amount off @ '')'') s"
  have s1: "extends_by_logs s ?s1" by (intro extends_logger extends_refl)
  show ?thesis
  proof (cases "getNextRelayWallet (walletManager ?s1)")
    case (Inl e)
    then show ?thesis using s1 by (simp add: execute_try_def Let_def)
  next
    case (Inr p)
    obtain w wm where p: "p = (w, wm)" by (cases p)
    let ?s2 = "?s1\<lparr>walletManager := wm\<rparr>"
    have s2: "extends_by_logs s ?s2" using s1 by (rule extends_wallet)
    have s3: "extends_by_logs s (snd (execute_transfer orc off w ?s2))"
      using s2 execute_transfer_extends by (rule extends_trans)
    show ?thesis
      using Inr p s2 s3
      by (auto simp: execute_try_def Let_def extends_logger extends_logger_number
          split: option.splits sum.splits prod.splits)
  qed
qed

lemma execute_extends: "extends_by_logs s (snd (execute orc off s))"
  using execute_try_extends [of s orc off]
  by (auto simp: execute_def extends_logger_number split: prod.splits sum.splits)

section \<open>Failure paths of the executor\<close>

text \<open>What \<open>execute\<close> throws is the error of \<open>JSON.stringify\<close> inside the logger.\<close>

lemma execute_throws:
  "fst (execute orc off s) = Inl t \<Longrightarrow>
   \<exists>e m. fst (execute_try orc off s) = Inl e \<and> json e = Inl m \<and> t = new_Error m"
  by (auto simp: execute_def split: prod.splits sum.splits dest: JSON_stringify_Inl)

lemma execute_failure:
  "fst (execute_try orc off s) = Inl e \<Longrightarrow> json e = Inr txt \<Longrightarrow>
   fst (execute orc off s) = Inr (failure_receipt orc off (message e))"
  by (auto simp: execute_def JSON_stringify_text split: prod.splits sum.splits)

lemma execute_rejects:
  "fst (execute_try orc off s) = Inl e \<Longrightarrow> json e = Inl m \<Longrightarrow>
   fst (execute orc off s) = Inl (new_Error m)"
  by (auto simp: execute_def JSON_stringify_throws split: prod.splits sum.splits)

lemma execute_try_empty_pool:
  "relayKeypairs (walletManager s) = [] \<Longrightarrow>
   fst (execute_try orc off s) = Inl (new_Error ''No relay wallets available'')"
  by (simp add: execute_try_def Let_def getNextRelayWallet_def logger_fields)

lemma execute_try_bad_recipient:
  "relayKeypairs (walletManager s) \<noteq> [] \<Longrightarrow> publicKeyError orc (recipient off) = Some e \<Longrightarrow>
   fst (execute_try orc off s) = Inl e"
  by (simp add: execute_try_def Let_def getNextRelayWallet_def logger_fields)

lemma execute_try_unsupported:
  "relayKeypairs (walletManager s) \<noteq> [] \<Longrightarrow> publicKeyError orc (recipient off) = None \<Longrightarrow>
   asset off \<noteq> ''SOL'' \<Longrightarrow> asset off \<noteq> ''USDC'' \<Longrightarrow>
   fst (execute_try orc off s) = Inl (new_Error (''Unsupported asset: '' @ asset off))"
  by (simp add: execute_try_def Let_def getNextRelayWallet_def logger_fields execute_transfer_def)

lemma execute_try_send_failed:
  "(\<And>tx ks n. \<exists>e. sendAndConfirmTransaction orc tx ks n = Inl e) \<Longrightarrow>
   \<exists>e. fst (execute_try orc off s) = Inl e"
proof -
  assume a: "\<And>tx ks n. \<exists>e. sendAndConfirmTransaction orc tx ks n = Inl e"
  have "sendAndConfirmTransaction orc tx ks n \<noteq> Inr sg" for tx ks n sg
    using a [of tx ks n] by auto
  then show ?thesis
    by (auto simp: execute_try_def Let_def split: option.splits sum.splits prod.splits)
qed

lemma createSOLTransfer_blockhash:
  "getLatestBlockhash orc = Inl e \<Longrightarrow> instructionError orc (SystemTransfer (pubkeyText kp) r (parseInt a)) = None \<Longrightarrow>
   createSOLTransfer orc (Some kp) r a = Inl e"
  by (simp add: createSOLTransfer_def)

section \<open>The success path of the executor\<close>

lemma execute_success_try:
  "fst (execute orc off s) = Inr r \<Longrightarrow> success r \<Longrightarrow>
   \<exists>sg spent. fst (execute_try orc off s) = Inr (sg, spent) \<and>
     r = \<lparr>rPartId = partId off, txSignature = sg, spentLamports = spent,
          feePaid = feeLamports off, rTimestamp = receiptTime orc, success = True, err = None\<rparr>"
  by (auto simp: execute_def failure_receipt_def split: prod.splits sum.splits)

lemma addUSDCTransfer_fees:
  "addUSDCTransfer orc kp fromATA toATA n ins fees = Inr (tx, spent) \<Longrightarrow> spent = fees"
  unfolding addUSDCTransfer_def by (auto split: option.splits sum.splits)

lemma createUSDCTransfer_spent:
  "fst (createUSDCTransfer orc w r a s) = Inr (tx, spent) \<Longrightarrow>
   \<exists>kp toATA. w = Some kp \<and> getAssociatedTokenAddress orc USDC_MINT r = Inr toATA \<and>
     spent = (if getAccount orc toATA then Num 0 else Num 2000000)"
  unfolding createUSDCTransfer_def Let_def
  by (auto simp: LAMPORTS_PER_SOL_def split: option.splits sum.splits if_splits dest: addUSDCTransfer_fees)

lemma createSOLTransfer_wallet:
  "createSOLTransfer orc w r a = Inr tx \<Longrightarrow> \<exists>kp. w = Some kp"
  unfolding createSOLTransfer_def Let_def by (auto split: option.splits)

lemma execute_transfer_spent:
  "fst (execute_transfer orc off w s) = Inr (tx, spent) \<Longrightarrow>
   (\<exists>kp. w = Some kp) \<and>
   (asset off = ''SOL'' \<and> spent = parseInt (amount off) \<or>
    asset off = ''USDC'' \<and>
      (\<exists>toATA. getAssociatedTokenAddress orc USDC_MINT (recipient off) = Inr toATA \<and>
         spent = (if getAccount orc toATA then Num 0 else Num 2000000)))"
  unfolding execute_transfer_def
  by (auto split: if_splits sum.splits dest: createSOLTransfer_wallet dest!: createUSDCTransfer_spent)

lemma execute_try_success:
  assumes "fst (execute_try orc off s) = Inr (sg, spent)"
  shows "\<exists>kp tx. sendAndConfirmTransaction orc tx [kp] (retryMax (config s)) = Inr sg"
    and "asset off = ''SOL'' \<and> spent = parseInt (amount off) \<or>
         asset off = ''USDC'' \<and>
           (\<exists>toATA. getAssociatedTokenAddress orc USDC_MINT (recipient off) = Inr toATA \<and>
              spent = (if getAccount orc toATA then Num 0 else Num 2000000))"
proof -
  let ?s1 = "logger INFO (''Executing offer '' @ oid off @ '' ('' @ asset off @ '' '' @ amount off @ '')'') s"
  from assms obtain w wm where w: "getNextRelayWallet (walletManager ?s1) = Inr (w, wm)"
    by (auto simp: execute_try_def Let_def split: sum.splits)
  let ?s2 = "?s1\<lparr>walletManager := wm\<rparr>"
  from assms w have pk: "publicKeyError orc (recipient off) = None"
    by (auto simp: execute_try_def Let_def split: option.splits)
  obtain res s3 where t: "execute_transfer orc off w ?s2 = (res, s3)"
    by (cases "execute_transfer orc off w ?s2")
  from assms w pk t obtain tx where res: "res = Inr (tx, spent)"
    and send: "sendAndConfirmTransaction orc tx (case w of None \<Rightarrow> [] | Some kp \<Rightarrow> [kp]) (retryMax (config s3)) = Inr sg"
    by (auto simp: execute_try_def Let_def split: sum.splits prod.splits)
  have f: "fst (execute_transfer orc off w ?s2) = Inr (tx, spent)"
    using t res by simp
  from execute_transfer_spent [OF f] obtain kp where kp: "w = Some kp" by blast
  have "extends_by_logs ?s2 s3"
    using execute_transfer_extends [of ?s2 orc off w] t by simp
  then have cfg: "config s3 = config s"
    by (simp add: extends_by_logs_def logger_fields)
  show "\<exists>kp tx. sendAndConfirmTransaction orc tx [kp] (retryMax (config s)) = Inr sg"
    using send kp cfg by auto
  show "asset off = ''SOL'' \<and> spent = parseInt (amount off) \<or>
         asset off = ''USDC'' \<and>
           (\<exists>toATA. getAssociatedTokenAddress orc USDC_MINT (recipient off) = Inr toATA \<and>
              spent = (if getAccount orc toATA then Num 0 else Num 2000000))"
    using execute_transfer_spent [OF f] by blast
qed

section \<open>Balances\<close>

lemma length_filter_all: "length (filter P xs) = length xs \<longleftrightarrow> (\<forall>x\<in>set xs. P x)"
proof (induction xs)
  case Nil
  then show ?case by simp
next
  case (Cons x xs)
  have "length (filter P xs) \<le> length xs" by simp
  then have "length (filter P xs) \<noteq> Suc (length xs)" by linarith
  with Cons show ?case by auto
qed

lemma getBalances_from_extends: "extends_by_logs s (snd (getBalances_from rpc i kps s))"
proof (induction kps arbitrary: i s)
  case Nil
  then show ?case by (simp add: extends_refl)
next
  case (Cons kp kps)
  show ?case
  proof (cases "getBalance rpc (pubkeyText kp)")
    case (Inr lamports)
    then show ?thesis
      using Cons [of s "i + 1"] by (auto split: prod.splits)
  next
    case (Inl e)
    let ?s1 = "logger WARN (''Failed to get balance for wallet '' @ decimal (i + 1) @ '': '' @ e) s"
    have "extends_by_logs s ?s1" by (intro extends_logger extends_refl)
    then have "extends_by_logs s (snd (getBalances_from rpc (i + 1) kps ?s1))"
      using Cons [of ?s1 "i + 1"] by (rule extends_trans)
    then show ?thesis
      using Inl by (auto split: prod.splits)
  qed
qed

lemma getBalances_extends: "extends_by_logs s (snd (getBalances rpc s))"
  unfolding getBalances_def by (rule getBalances_from_extends)

lemma low_all:
  "length (lowBalanceWallets bs) = length bs \<longleftrightarrow> (\<forall>w\<in>set bs. balanceSOL w < 1 / 100)"
  by (simp add: lowBalanceWallets_def minBalance_def length_filter_all)

lemma low_none:
  "lowBalanceWallets bs = [] \<longleftrightarrow> (\<forall>w\<in>set bs. \<not> balanceSOL w < 1 / 100)"
  by (simp add: lowBalanceWallets_def minBalance_def filter_empty_conv)

section \<open>Admission and the claim\<close>

lemma validateOffer_admits:
  "fst (validateOffer now off s) \<longleftrightarrow>
     \<not> (asset off = ''SOL'' \<and> number_gt (parseInt (amount off)) (maxPerTx s)) \<and>
     int (activeSize s) < maxConcurrent (config s) \<and>
     (\<forall>e. expiresAt off = Some e \<and> e \<noteq> 0 \<longrightarrow> now \<le> e)"
  by (auto simp: validateOffer_def split: option.splits)

lemma validateOffer_true: "fst (validateOffer now off s) \<Longrightarrow> validateOffer now off s = (True, s)"
  by (auto simp: validateOffer_def split: option.splits if_splits)

lemma validateOffer_logger:
  "fst (validateOffer now off (logger lv m s)) = fst (validateOffer now off s)"
  by (simp add: validateOffer_admits maxPerTx_def activeSize_def logger_fields)

lemma validateOffer_over_limit:
  "asset off = ''SOL'' \<Longrightarrow> number_gt (parseInt (amount off)) (maxPerTx s) \<Longrightarrow>
   validateOffer now off s =
     (False, logger_number WARN
               (''Offer '' @ oid off @ '' exceeds per-tx limit: '' @ amount off @ '' > '')
               (maxPerTx s) [] s)"
  by (simp add: validateOffer_def)

lemma maxPerTx_logger: "maxPerTx (logger lv m s) = maxPerTx s"
  by (simp add: maxPerTx_def logger_fields)

lemma handleOffer_over_limit:
  assumes "asset off = ''SOL''" and "number_gt (parseInt (amount off)) (maxPerTx s)"
  shows "handleOffer orc off s =
     (Inr (), s\<lparr>trace := trace s @
        [Log INFO (''Received offer '' @ oid off @ '' ('' @ asset off @ '' '' @ amount off @ '')''),
         LogNumber WARN (''Offer '' @ oid off @ '' exceeds per-tx limit: '' @ amount off @ '' > '')
           (maxPerTx s) [],
         Log WARN (''Invalid offer '' @ oid off @ '', skipping'')]\<rparr>)"
proof -
  let ?s1 = "logger INFO (''Received offer '' @ oid off @ '' ('' @ asset off @ '' '' @ amount off @ '')'') s"
  have "validateOffer (validateTime orc) off ?s1 =
     (False, logger_number WARN
               (''Offer '' @ oid off @ '' exceeds per-tx limit: '' @ amount off @ '' > '')
               (maxPerTx ?s1) [] ?s1)"
    using assms by (intro validateOffer_over_limit) (simp_all add: maxPerTx_logger)
  then have "handleOffer orc off s =
     (Inr (), logger WARN (''Invalid offer '' @ oid off @ '', skipping'')
        (logger_number WARN
           (''Offer '' @ oid off @ '' exceeds per-tx limit: '' @ amount off @ '' > '')
           (maxPerTx s) [] ?s1))"
    by (simp add: handleOffer_def handleOffer_try_def Let_def maxPerTx_logger)
  then show ?thesis
    by (simp add: logger_def logger_number_def emit_def)
qed

lemma handleOffer_claim_lost:
  assumes "fst (validateOffer (validateTime orc) off s)" and "acceptResponse orc = Response 409 txt"
  shows "handleOffer orc off s =
     (Inr (), s\<lparr>trace := trace s @
        [Log INFO (''Received offer '' @ oid off @ '' ('' @ asset off @ '' '' @ amount off @ '')''),
         AcceptRequest \<lparr>offerId = oid off, nodeId = pubkeyText (nodeKeypair (walletManager s)),
                        timestamp = acceptTime orc\<rparr>,
         Log INFO (''Offer '' @ oid off @ '' was claimed by another node'')]\<rparr>)"
proof -
  let ?s1 = "logger INFO (''Received offer '' @ oid off @ '' ('' @ asset off @ '' '' @ amount off @ '')'') s"
  have "fst (validateOffer (validateTime orc) off ?s1)"
    using assms(1) by (simp add: validateOffer_logger)
  then have "validateOffer (validateTime orc) off ?s1 = (True, ?s1)"
    by (rule validateOffer_true)
  then have "handleOffer orc off s =
     (Inr (), logger INFO (''Offer '' @ oid off @ '' was claimed by another node'')
        (emit (AcceptRequest \<lparr>offerId = oid off, nodeId = pubkeyText (nodeKeypair (walletManager s)),
                               timestamp = acceptTime orc\<rparr>) ?s1))"
    using assms(2)
    by (simp add: handleOffer_def handleOffer_try_def Let_def acceptOffer_def logger_fields)
  then show ?thesis
    by (simp add: logger_def emit_def)
qed

section \<open>The claimed offer\<close>

lemma activeSet_fields:
  "trace (activeSet off s) = trace s @ [ActiveSet (oid off)]"
  "activeOffers (activeSet off s) = AList.update (oid off) off (activeOffers s)"
  by (simp_all add: activeSet_def emit_def)

lemma activeDelete_fields:
  "trace (activeDelete k s) = trace s @ [ActiveDelete k]"
  "activeOffers (activeDelete k s) = AList.delete k (activeOffers s)"
  by (simp_all add: activeDelete_def emit_def)

lemma record_fields:
  "trace (recordOfferAccepted s) = trace s" "activeOffers (recordOfferAccepted s) = activeOffers s"
  "trace (recordOfferCompleted ms s) = trace s" "activeOffers (recordOfferCompleted ms s) = activeOffers s"
  "trace (recordOfferFailed s) = trace s" "activeOffers (recordOfferFailed s) = activeOffers s"
  by (simp_all add: recordOfferAccepted_def recordOfferCompleted_def recordOfferFailed_def Let_def)

lemma logger_error_fields:
  "\<exists>l. list_all is_log l \<and> trace (snd (logger_error lv m e s)) = trace s @ l"
  "activeOffers (snd (logger_error lv m e s)) = activeOffers s"
  by (auto simp: logger_error_def logger_fields split: sum.splits)

lemma logger_error_fst:
  "fst (logger_error lv m e s) = (case JSON_stringify e of Inl t \<Rightarrow> Inl t | Inr txt \<Rightarrow> Inr ())"
  by (simp add: logger_error_def split: sum.splits)

text \<open>The \<open>catch\<close> block of \<open>handleOffer\<close> deletes the offer before anything can throw.\<close>

lemma handleOffer_catch:
  assumes "handleOffer_try orc off s = (Inl e, s1)"
  shows "\<exists>l. list_all is_log l \<and>
     trace (snd (handleOffer orc off s)) = trace s1 @ ActiveDelete (oid off) # l \<and>
     activeOffers (snd (handleOffer orc off s)) = AList.delete (oid off) (activeOffers s1)"
proof -
  define m where "m = ''Failed to execute offer '' @ oid off @ '':''"
  let ?s2 = "recordOfferFailed (activeDelete (oid off) s1)"
  have h: "handleOffer orc off s = logger_error ERROR m e ?s2"
    using assms by (simp add: handleOffer_def m_def)
  obtain l where l: "list_all is_log l" "trace (snd (logger_error ERROR m e ?s2)) = trace ?s2 @ l"
    using logger_error_fields(1) [of ERROR m e ?s2] by blast
  have "trace (snd (handleOffer orc off s)) = trace s1 @ ActiveDelete (oid off) # l"
    by (simp add: h l record_fields activeDelete_fields)
  moreover have "activeOffers (snd (handleOffer orc off s)) = AList.delete (oid off) (activeOffers s1)"
    by (simp add: h logger_error_fields(2) record_fields activeDelete_fields)
  ultimately show ?thesis using l(1) by blast
qed

lemma handleOffer_fst:
  "fst (handleOffer orc off s) =
     (case fst (handleOffer_try orc off s) of
        Inr u \<Rightarrow> Inr ()
      | Inl e \<Rightarrow> (case JSON_stringify e of Inl t \<Rightarrow> Inl t | Inr txt \<Rightarrow> Inr ()))"
  by (simp add: handleOffer_def logger_error_fst split: prod.splits sum.splits)

lemma acceptOffer_true:
  "acceptResponse orc = Response st txt \<Longrightarrow> st \<noteq> 409 \<Longrightarrow> response_ok st \<Longrightarrow>
   acceptOffer (acceptResponse orc) acceptance s = (Inr True, emit (AcceptRequest acceptance) s)"
  by (simp add: acceptOffer_def Let_def)

text \<open>
  The \<open>try\<close> block of \<open>handleOffer\<close> for an admitted offer whose claim is accepted, from the
  result of \<open>execute\<close> on.
\<close>

lemma handleOffer_try_claimed:
  assumes v: "fst (validateOffer (validateTime orc) off s)"
    and a: "acceptResponse orc = Response st txt" "st \<noteq> 409" "response_ok st"
  shows "\<exists>s4 res s5.
     trace s4 = trace s @
       [Log INFO (''Received offer '' @ oid off @ '' ('' @ asset off @ '' '' @ amount off @ '')''),
        AcceptRequest \<lparr>offerId = oid off, nodeId = pubkeyText (nodeKeypair (walletManager s)),
                       timestamp = acceptTime orc\<rparr>,
        ActiveSet (oid off),
        Log INFO (''Accepted offer '' @ oid off @ '', executing...'')] \<and>
     activeOffers s4 = AList.update (oid off) off (activeOffers s) \<and>
     execute (chain orc) off s4 = (res, s5) \<and>
     handleOffer_try orc off s =
       (case res of
          Inl e \<Rightarrow> (Inl e, s5)
        | Inr receipt \<Rightarrow>
            (case submitReceipt (receiptResponse orc) receipt s5 of
               (Inl e, s6) \<Rightarrow> (Inl e, s6)
             | (Inr u, s6) \<Rightarrow>
                 (Inr (),
                  logger INFO (''Completed offer '' @ oid off @ '' ('' @ txSignature receipt @ '')'')
                    (recordOfferCompleted (doneTime orc - startTime orc)
                       (activeDelete (oid off) s6)))))"
proof -
  let ?s1 = "logger INFO (''Received offer '' @ oid off @ '' ('' @ asset off @ '' '' @ amount off @ '')'') s"
  let ?acc = "\<lparr>offerId = oid off, nodeId = pubkeyText (nodeKeypair (walletManager s)),
                timestamp = acceptTime orc\<rparr>"
  let ?s3 = "emit (AcceptRequest ?acc) ?s1"
  let ?s4 = "logger INFO (''Accepted offer '' @ oid off @ '', executing...'')
               (recordOfferAccepted (activeSet off ?s3))"
  have v1: "validateOffer (validateTime orc) off ?s1 = (True, ?s1)"
    using v by (intro validateOffer_true) (simp add: validateOffer_logger)
  have acc: "acceptOffer (acceptResponse orc) ?acc ?s1 = (Inr True, ?s3)"
    using a by (rule acceptOffer_true)
  obtain res s5 where ex: "execute (chain orc) off ?s4 = (res, s5)"
    by (cases "execute (chain orc) off ?s4")
  have t4: "trace ?s4 = trace s @
       [Log INFO (''Received offer '' @ oid off @ '' ('' @ asset off @ '' '' @ amount off @ '')''),
        AcceptRequest ?acc, ActiveSet (oid off),
        Log INFO (''Accepted offer '' @ oid off @ '', executing...'')]"
    by (simp add: logger_fields emit_fields activeSet_fields record_fields)
  have a4: "activeOffers ?s4 = AList.update (oid off) off (activeOffers s)"
    by (simp add: logger_fields emit_fields activeSet_fields record_fields)
  have wm: "walletManager ?s1 = walletManager s"
    by (simp add: logger_fields)
  have acc1: "acceptOffer (acceptResponse orc)
        \<lparr>offerId = oid off, nodeId = pubkeyText (nodeKeypair (walletManager ?s1)),
         timestamp = acceptTime orc\<rparr> ?s1 = (Inr True, ?s3)"
    using acc by (simp only: wm)
  have try_eq: "handleOffer_try orc off s =
       (case res of
          Inl e \<Rightarrow> (Inl e, s5)
        | Inr receipt \<Rightarrow>
            (case submitReceipt (receiptResponse orc) receipt s5 of
               (Inl e, s6) \<Rightarrow> (Inl e, s6)
             | (Inr u, s6) \<Rightarrow>
                 (Inr (),
                  logger INFO (''Completed offer '' @ oid off @ '' ('' @ txSignature receipt @ '')'')
                    (recordOfferCompleted (doneTime orc - startTime orc)
                       (activeDelete (oid off) s6)))))"
    unfolding handleOffer_try_def Let_def v1 prod.case bool.case acc1 sum.case ex
    by (rule refl)
  from t4 a4 ex try_eq show ?thesis by blast
qed

lemma no_ActiveSet_in_logs: "list_all is_log l \<Longrightarrow> ActiveSet k \<notin> set l"
  by (auto simp: list_all_iff)

lemma handleOffer_claimed:
  assumes v: "fst (validateOffer (validateTime orc) off s)"
    and a: "acceptResponse orc = Response st txt" "st \<noteq> 409" "response_ok st"
  shows "\<exists>rest.
     activeOffers (snd (handleOffer orc off s)) = AList.delete (oid off) (activeOffers s) \<and>
     trace (snd (handleOffer orc off s)) =
       trace s @
       [Log INFO (''Received offer '' @ oid off @ '' ('' @ asset off @ '' '' @ amount off @ '')''),
        AcceptRequest \<lparr>offerId = oid off, nodeId = pubkeyText (nodeKeypair (walletManager s)),
                       timestamp = acceptTime orc\<rparr>,
        ActiveSet (oid off),
        Log INFO (''Accepted offer '' @ oid off @ '', executing...'')] @ rest \<and>
     ActiveDelete (oid off) \<in> set rest \<and> (\<forall>k. ActiveSet k \<notin> set rest)"
proof -
  from handleOffer_try_claimed [OF assms] obtain s4 res s5 where
    t4: "trace s4 = trace s @
       [Log INFO (''Received offer '' @ oid off @ '' ('' @ asset off @ '' '' @ amount off @ '')''),
        AcceptRequest \<lparr>offerId = oid off, nodeId = pubkeyText (nodeKeypair (walletManager s)),
                       timestamp = acceptTime orc\<rparr>,
        ActiveSet (oid off),
        Log INFO (''Accepted offer '' @ oid off @ '', executing...'')]" and
    a4: "activeOffers s4 = AList.update (oid off) off (activeOffers s)" and
    ex: "execute (chain orc) off s4 = (res, s5)" and
    try_eq: "handleOffer_try orc off s =
       (case res of
          Inl e \<Rightarrow> (Inl e, s5)
        | Inr receipt \<Rightarrow>
            (case submitReceipt (receiptResponse orc) receipt s5 of
               (Inl e, s6) \<Rightarrow> (Inl e, s6)
             | (Inr u, s6) \<Rightarrow>
                 (Inr (),
                  logger INFO (''Completed offer '' @ oid off @ '' ('' @ txSignature receipt @ '')'')
                    (recordOfferCompleted (doneTime orc - startTime orc)
                       (activeDelete (oid off) s6)))))"
    by blast
  have fr: "extends_by_logs s4 s5"
    using execute_extends [of s4 "chain orc" off] ex by simp
  define logs where "logs = events_since s4 s5"
  have t5: "trace s5 = trace s4 @ logs"
    unfolding logs_def using fr by (rule extends_traceD)
  have l5: "list_all is_log logs"
    using fr by (simp add: logs_def extends_by_logs_def)
  have a5: "activeOffers s5 = activeOffers s4"
    using fr by (simp add: extends_by_logs_def)
  have del: "AList.delete (oid off) (AList.update (oid off) off (activeOffers s)) =
             AList.delete (oid off) (activeOffers s)"
    by (simp add: delete_update_same)
  have tail: "\<exists>tl. activeOffers (snd (handleOffer orc off s)) = AList.delete (oid off) (activeOffers s5) \<and>
      trace (snd (handleOffer orc off s)) = trace s5 @ tl \<and>
      ActiveDelete (oid off) \<in> set tl \<and> (\<forall>k. ActiveSet k \<notin> set tl)"
  proof (cases res)
    case (Inl e)
    then have "handleOffer_try orc off s = (Inl e, s5)"
      by (simp add: try_eq)
    from handleOffer_catch [OF this] obtain l where l: "list_all is_log l"
      "trace (snd (handleOffer orc off s)) = trace s5 @ ActiveDelete (oid off) # l"
      "activeOffers (snd (handleOffer orc off s)) = AList.delete (oid off) (activeOffers s5)"
      by blast
    have "\<forall>k. ActiveSet k \<notin> set (ActiveDelete (oid off) # l)"
      using no_ActiveSet_in_logs [OF l(1)] by simp
    with l show ?thesis by (intro exI [of _ "ActiveDelete (oid off) # l"]) simp
  next
    case (Inr r)
    let ?s6 = "emit (ReceiptRequest r) s5"
    have t6: "trace ?s6 = trace s5 @ [ReceiptRequest r]" and a6: "activeOffers ?s6 = activeOffers s5"
      by (simp_all add: emit_fields)
    have thrown: "\<exists>tl. activeOffers (snd (handleOffer orc off s)) = AList.delete (oid off) (activeOffers s5) \<and>
      trace (snd (handleOffer orc off s)) = trace s5 @ tl \<and>
      ActiveDelete (oid off) \<in> set tl \<and> (\<forall>k. ActiveSet k \<notin> set tl)"
      if "handleOffer_try orc off s = (Inl e, ?s6)" for e
    proof -
      from handleOffer_catch [OF that] obtain l where l: "list_all is_log l"
        "trace (snd (handleOffer orc off s)) = trace ?s6 @ ActiveDelete (oid off) # l"
        "activeOffers (snd (handleOffer orc off s)) = AList.delete (oid off) (activeOffers ?s6)"
        by blast
      have "\<forall>k. ActiveSet k \<notin> set (ReceiptRequest r # ActiveDelete (oid off) # l)"
        using no_ActiveSet_in_logs [OF l(1)] by simp
      with l show ?thesis
        by (intro exI [of _ "ReceiptRequest r # ActiveDelete (oid off) # l"]) (simp add: t6 a6)
    qed
    show ?thesis
    proof (cases "receiptResponse orc")
      case (NetworkError e)
      then have "handleOffer_try orc off s = (Inl e, ?s6)"
        using Inr by (simp add: try_eq submitReceipt_def Let_def)
      then show ?thesis by (rule thrown)
    next
      case (Response st2 txt2)
      show ?thesis
      proof (cases "response_ok st2")
        case False
        then have "handleOffer_try orc off s =
            (Inl (new_Error (''Failed to submit receipt: '' @ txt2)), ?s6)"
          using Inr Response by (simp add: try_eq submitReceipt_def Let_def)
        then show ?thesis by (rule thrown)
      next
        case True
        then have h: "handleOffer orc off s =
            (Inr (), logger INFO (''Completed offer '' @ oid off @ '' ('' @ txSignature r @ '')'')
                    (recordOfferCompleted (doneTime orc - startTime orc)
                       (activeDelete (oid off) ?s6)))"
          using Inr Response by (simp add: handleOffer_def try_eq submitReceipt_def Let_def)
        show ?thesis
          by (intro exI [of _ "[ReceiptRequest r, ActiveDelete (oid off),
                Log INFO (''Completed offer '' @ oid off @ '' ('' @ txSignature r @ '')'')]"])
            (simp add: h logger_fields record_fields activeDelete_fields emit_fields)
      qed
    qed
  qed
  then obtain tl where tl:
      "activeOffers (snd (handleOffer orc off s)) = AList.delete (oid off) (activeOffers s5)"
      "trace (snd (handleOffer orc off s)) = trace s5 @ tl"
      "ActiveDelete (oid off) \<in> set tl" "\<forall>k. ActiveSet k \<notin> set tl"
    by blast
  have none: "\<forall>k. ActiveSet k \<notin> set (logs @ tl)"
    using no_ActiveSet_in_logs [OF l5] tl(4) by simp
  show ?thesis
    apply (intro exI [of _ "logs @ tl"])
    using tl none by (simp add: t5 t4 a5 a4 del)
qed

text \<open>
  \<open>handleOffer\<close> returns normally for a claimed offer unless the receipt request fails with
  a transport error that the logger cannot print: it then throws the error of
  \<open>JSON.stringify\<close>.
\<close>

lemma handleOffer_claimed_result:
  assumes v: "fst (validateOffer (validateTime orc) off s)"
    and a: "acceptResponse orc = Response st txt" "st \<noteq> 409" "response_ok st"
  shows "fst (handleOffer orc off s) = Inr () \<or>
     (\<exists>e m. receiptResponse orc = NetworkError e \<and> json e = Inl m \<and>
        fst (handleOffer orc off s) = Inl (new_Error m))"
proof -
  from handleOffer_try_claimed [OF v a] obtain s4 res s5 where
    ex: "execute (chain orc) off s4 = (res, s5)" and
    try_eq: "handleOffer_try orc off s =
       (case res of
          Inl e \<Rightarrow> (Inl e, s5)
        | Inr receipt \<Rightarrow>
            (case submitReceipt (receiptResponse orc) receipt s5 of
               (Inl e, s6) \<Rightarrow> (Inl e, s6)
             | (Inr u, s6) \<Rightarrow>
                 (Inr (),
                  logger INFO (''Completed offer '' @ oid off @ '' ('' @ txSignature receipt @ '')'')
                    (recordOfferCompleted (doneTime orc - startTime orc)
                       (activeDelete (oid off) s6)))))"
    by blast
  show ?thesis
  proof (cases res)
    case (Inl e)
    then have "fst (execute (chain orc) off s4) = Inl e" using ex by simp
    from execute_throws [OF this] obtain m where "e = new_Error m" by blast
    then show ?thesis
      using Inl by (simp add: handleOffer_fst try_eq JSON_stringify_new_Error)
  next
    case (Inr r)
    show ?thesis
    proof (cases "receiptResponse orc")
      case (NetworkError e)
      show ?thesis
      proof (cases "json e")
        case j: (Inl m)
        then have "fst (handleOffer orc off s) = Inl (new_Error m)"
          using Inr NetworkError
          by (simp add: handleOffer_fst try_eq submitReceipt_def Let_def JSON_stringify_throws)
        with NetworkError j show ?thesis by blast
      next
        case j: (Inr t)
        then show ?thesis
          using Inr NetworkError
          by (simp add: handleOffer_fst try_eq submitReceipt_def Let_def JSON_stringify_text)
      qed
    next
      case (Response st2 txt2)
      then show ?thesis
        using Inr
        by (simp add: handleOffer_fst try_eq submitReceipt_def Let_def JSON_stringify_new_Error)
    qed
  qed
qed

section \<open>The running flag is not read while an offer is handled\<close>

















section \<open>Rotation\<close>

lemma nextWallets_from_cursor:
  "currentRelayIndex wm < length (relayKeypairs wm) \<Longrightarrow>
   nextWallets k wm =
     Inr (map (\<lambda>j. Some (relayKeypairs wm ! ((currentRelayIndex wm + j) mod length (relayKeypairs wm)))) [0..<k],
          wm\<lparr>currentRelayIndex := (currentRelayIndex wm + k) mod length (relayKeypairs wm)\<rparr>)"
proof (induction k arbitrary: wm)
  case 0
  then show ?case by simp
next
  case (Suc k)
  let ?n = "length (relayKeypairs wm)"
  let ?wm' = "wm\<lparr>currentRelayIndex := (currentRelayIndex wm + 1) mod ?n\<rparr>"
  from Suc.prems have pos: "0 < ?n" by auto
  have step: "getNextRelayWallet wm = Inr (Some (relayKeypairs wm ! currentRelayIndex wm), ?wm')"
    using Suc.prems pos by (simp add: getNextRelayWallet_def Let_def)
  have inv: "currentRelayIndex ?wm' < length (relayKeypairs ?wm')"
    using pos by simp
  have idx: "(Suc (currentRelayIndex wm) mod ?n + j) mod ?n = Suc (currentRelayIndex wm + j) mod ?n" for j
    by (simp add: mod_add_left_eq)
  have shift: "map f [0..<Suc k] = f 0 # map (\<lambda>j. f (Suc j)) [0..<k]" for f :: "nat \<Rightarrow> keypair option"
    by (simp add: upt_conv_Cons map_Suc_upt [symmetric] del: upt_Suc)
  show ?case
    using Suc.IH [OF inv] Suc.prems
    by (simp add: step idx shift del: upt_Suc)
qed

text \<open>
  C2. From cursor 0, the first \<open>N\<close> calls on a pool of \<open>N \<ge> 1\<close> wallets return the wallets
  in insertion order, each once, and leave the cursor at 0; the next call returns the first
  wallet again. Every call on a non-empty pool moves the cursor to \<open>(cursor + 1) mod N\<close>,
  and a call on an empty pool throws and returns no wallet.
\<close>

theorem getNextRelayWallet_round_robin:
  "(relayKeypairs wm \<noteq> [] \<and> currentRelayIndex wm = 0 \<longrightarrow>
      nextWallets (length (relayKeypairs wm)) wm = Inr (map Some (relayKeypairs wm), wm) \<and>
      nextWallets (length (relayKeypairs wm) + 1) wm =
        Inr (map Some (relayKeypairs wm @ [hd (relayKeypairs wm)]),
             wm\<lparr>currentRelayIndex := 1 mod length (relayKeypairs wm)\<rparr>)) \<and>
   (relayKeypairs wm \<noteq> [] \<longrightarrow>
      (\<exists>w. getNextRelayWallet wm =
         Inr (w, wm\<lparr>currentRelayIndex := (currentRelayIndex wm + 1) mod length (relayKeypairs wm)\<rparr>))) \<and>
   (relayKeypairs wm = [] \<longrightarrow> getNextRelayWallet wm = Inl ''No relay wallets available'')"
proof (intro conjI impI)
  assume a: "relayKeypairs wm \<noteq> [] \<and> currentRelayIndex wm = 0"
  let ?ks = "relayKeypairs wm"
  let ?n = "length ?ks"
  from a have lt: "currentRelayIndex wm < ?n" and z: "currentRelayIndex wm = 0" and pos: "0 < ?n"
    by simp_all
  have first: "map (\<lambda>j. Some (?ks ! (j mod ?n))) [0..<?n] = map Some ?ks"
    by (rule nth_equalityI) simp_all
  have wm0: "wm\<lparr>currentRelayIndex := 0\<rparr> = wm"
    using z by simp
  show "nextWallets ?n wm = Inr (map Some ?ks, wm)"
    using nextWallets_from_cursor [OF lt, of ?n] by (simp add: z first wm0)
  have hd0: "?ks ! 0 = hd ?ks"
    using a by (simp add: hd_conv_nth)
  have "map (\<lambda>j. Some (?ks ! (j mod ?n))) [0..<?n + 1] = map Some ?ks @ [Some (?ks ! 0)]"
    using first by simp
  moreover have "(?n + 1) mod ?n = 1 mod ?n"
    by (metis add.commute mod_add_self2)
  ultimately show "nextWallets (?n + 1) wm =
      Inr (map Some (?ks @ [hd ?ks]), wm\<lparr>currentRelayIndex := 1 mod ?n\<rparr>)"
    using nextWallets_from_cursor [OF lt, of "?n + 1"]
    by (simp add: z hd0 del: nextWallets.simps One_nat_def add_Suc_right)
next
  assume "relayKeypairs wm \<noteq> []"
  then show "\<exists>w. getNextRelayWallet wm =
      Inr (w, wm\<lparr>currentRelayIndex := (currentRelayIndex wm + 1) mod length (relayKeypairs wm)\<rparr>)"
    by (simp add: getNextRelayWallet_def Let_def)
next
  assume "relayKeypairs wm = []"
  then show "getNextRelayWallet wm = Inl ''No relay wallets available''"
    by (simp add: getNextRelayWallet_def)
qed

theorem getNextRelayWallet_round_robin_witness:
  "nextWallets (Suc (Suc (Suc 0))) \<lparr>nodeKeypair = Keypair ''N'', relayKeypairs = [Keypair ''A'', Keypair ''B'', Keypair ''C''], currentRelayIndex = 0\<rparr>
     = Inr ([Some (Keypair ''A''), Some (Keypair ''B''), Some (Keypair ''C'')],
            \<lparr>nodeKeypair = Keypair ''N'', relayKeypairs = [Keypair ''A'', Keypair ''B'', Keypair ''C''], currentRelayIndex = 0\<rparr>) \<and>
   nextWallets (Suc (Suc (Suc (Suc 0)))) \<lparr>nodeKeypair = Keypair ''N'', relayKeypairs = [Keypair ''A'', Keypair ''B'', Keypair ''C''], currentRelayIndex = 0\<rparr>
     = Inr ([Some (Keypair ''A''), Some (Keypair ''B''), Some (Keypair ''C''), Some (Keypair ''A'')],
            \<lparr>nodeKeypair = Keypair ''N'', relayKeypairs = [Keypair ''A'', Keypair ''B'', Keypair ''C''], currentRelayIndex = 1\<rparr>) \<and>
   getNextRelayWallet \<lparr>nodeKeypair = Keypair ''N'', relayKeypairs = [], currentRelayIndex = 0\<rparr>
     = Inl ''No relay wallets available''"
  using getNextRelayWallet_round_robin
          [of "\<lparr>nodeKeypair = Keypair ''N'', relayKeypairs = [Keypair ''A'', Keypair ''B'', Keypair ''C''], currentRelayIndex = 0\<rparr>"]
        getNextRelayWallet_round_robin
          [of "\<lparr>nodeKeypair = Keypair ''N'', relayKeypairs = [], currentRelayIndex = 0\<rparr>"]
  by (simp del: nextWallets.simps)

section \<open>The executor's receipts\<close>

text \<open>
  The three outcomes of \<open>execute\<close>: the receipt of a success, the failure receipt with the
  message of the caught error, or, when the logger of the \<open>catch\<close> block cannot print the
  caught error, the \<open>TypeError\<close> of \<open>JSON.stringify\<close> thrown to the caller.
\<close>

lemma execute_outcomes:
  "(\<exists>r. fst (execute orc off s) = Inr r \<and> success r) \<or>
   (\<exists>e txt. fst (execute_try orc off s) = Inl e \<and> json e = Inr txt \<and>
      fst (execute orc off s) = Inr (failure_receipt orc off (message e))) \<or>
   (\<exists>e m. fst (execute_try orc off s) = Inl e \<and> json e = Inl m \<and>
      fst (execute orc off s) = Inl (new_Error m))"
proof (cases "fst (execute_try orc off s)")
  case (Inl e)
  show ?thesis
  proof (cases "json e")
    case a: (Inl m)
    with Inl show ?thesis using execute_rejects by blast
  next
    case (Inr t)
    with Inl show ?thesis using execute_failure by blast
  qed
next
  case (Inr p)
  then show ?thesis
    by (auto simp: execute_def split: prod.splits sum.splits)
qed

text \<open>
  C7 does not hold of the code. The \<open>catch\<close> block of \<open>execute\<close> passes the caught error to
  the logger before it builds the failure receipt, and the logger throws on an error that
  \<open>JSON.stringify\<close> cannot print. The offer of \<open>-5\<close> lamports passes admission; when the
  library rejects the amount with an error that carries a \<open>BigInt\<close>, \<open>execute\<close> throws the
  \<open>TypeError\<close> of \<open>JSON.stringify\<close> and returns no receipt, and \<open>handleOffer\<close> releases the
  offer and sends no receipt to the dispatcher.
\<close>

theorem execute_throws_on_unprintable_error:
  "fst (validateOffer 1001 (example_offer\<lparr>amount := ''-5''\<rparr>) example_node) \<and>
   fst (execute (example_chain\<lparr>instructionError := (\<lambda>i. Some example_bigint_error)\<rparr>)
          (example_offer\<lparr>amount := ''-5''\<rparr>) example_node) =
     Inl (new_Error ''Do not know how to serialize a BigInt'') \<and>
   trace (snd (handleOffer
      (example_oracle\<lparr>chain := example_chain\<lparr>instructionError := (\<lambda>i. Some example_bigint_error)\<rparr>\<rparr>)
      (example_offer\<lparr>amount := ''-5''\<rparr>) example_node)) =
     [Log INFO ''Received offer offer-1 (SOL -5)'',
      AcceptRequest \<lparr>offerId = ''offer-1'', nodeId = ''NODE'', timestamp = 1002\<rparr>,
      ActiveSet ''offer-1'',
      Log INFO ''Accepted offer offer-1, executing...'',
      Log INFO ''Executing offer offer-1 (SOL -5)'',
      ActiveDelete ''offer-1'',
      Log ERROR ''Failed to execute offer offer-1: {}'']"
  by code_simp

text \<open>
  C8, as stated, fails for an amount that no double represents: the spent amount is what
  \<open>parseInt\<close> returns, and for the requested amount 9007199254740993 (\<open>2^53 + 1\<close>) that is
  9007199254740992.
\<close>

theorem execute_spent_rounded_counterexample:
  "amount (example_offer\<lparr>amount := ''9007199254740993''\<rparr>) = decimal 9007199254740993 \<and>
   fst (execute example_chain (example_offer\<lparr>amount := ''9007199254740993''\<rparr>) example_node) =
     Inr \<lparr>rPartId = ''part-1'', txSignature = ''SIG1'', spentLamports = Num 9007199254740992,
          feePaid = 5000, rTimestamp = 2000, success = True, err = None\<rparr>"
  by code_simp

text \<open>
  C8, amended. A receipt with \<open>success = true\<close> carries the part id and the fee of the
  offer, the signature that \<open>sendAndConfirmTransaction\<close> returned for the transaction sent,
  and no error. Its spent amount is, for a SOL offer, the double that \<open>parseInt\<close> returns
  for the offer's amount, which is the requested amount \<open>n\<close> itself when the amount is the
  decimal numeral of an \<open>n\<close> below \<open>2^53\<close>; for a USDC offer it is the fee of creating the
  recipient's token account: 0 when the account exists, 2000000 lamports when it had to be
  created. No other asset succeeds.
\<close>

theorem execute_success_receipt:
  assumes "fst (execute orc off s) = Inr r" and "success r"
  shows "rPartId r = partId off \<and> feePaid r = feeLamports off \<and> err r = None \<and>
    (\<exists>kp tx. sendAndConfirmTransaction orc tx [kp] (retryMax (config s)) = Inr (txSignature r)) \<and>
    (asset off = ''SOL'' \<or> asset off = ''USDC'') \<and>
    (asset off = ''SOL'' \<longrightarrow> spentLamports r = parseInt (amount off)) \<and>
    (\<forall>n. asset off = ''SOL'' \<and> amount off = decimal n \<and> n < 2 ^ 53 \<longrightarrow>
       spentLamports r = Num (int n)) \<and>
    (asset off = ''USDC'' \<longrightarrow>
       (\<exists>toATA. getAssociatedTokenAddress orc USDC_MINT (recipient off) = Inr toATA \<and>
          spentLamports r = (if getAccount orc toATA then Num 0 else Num 2000000)))"
proof -
  from execute_success_try [OF assms] obtain sg spent where
    t: "fst (execute_try orc off s) = Inr (sg, spent)" and
    r: "r = \<lparr>rPartId = partId off, txSignature = sg, spentLamports = spent,
          feePaid = feeLamports off, rTimestamp = receiptTime orc, success = True, err = None\<rparr>"
    by blast
  note send = execute_try_success(1) [OF t]
  note spent = execute_try_success(2) [OF t]
  have fields: "rPartId r = partId off \<and> feePaid r = feeLamports off \<and> err r = None"
    using r by simp
  have sig: "\<exists>kp tx. sendAndConfirmTransaction orc tx [kp] (retryMax (config s)) = Inr (txSignature r)"
    using send r by simp
  have kinds: "asset off = ''SOL'' \<or> asset off = ''USDC''"
    using spent by blast
  have sol: "asset off = ''SOL'' \<longrightarrow> spentLamports r = parseInt (amount off)"
    using spent r by auto
  have dec: "\<forall>n. asset off = ''SOL'' \<and> amount off = decimal n \<and> n < 2 ^ 53 \<longrightarrow>
       spentLamports r = Num (int n)"
    using sol by (auto simp: parseInt_decimal)
  have usdc: "asset off = ''USDC'' \<longrightarrow>
       (\<exists>toATA. getAssociatedTokenAddress orc USDC_MINT (recipient off) = Inr toATA \<and>
          spentLamports r = (if getAccount orc toATA then Num 0 else Num 2000000))"
    using spent r by auto
  from fields sig kinds sol dec usdc show ?thesis by blast
qed

theorem execute_success_receipt_witness:
  "fst (execute example_chain example_offer example_node) =
     Inr \<lparr>rPartId = ''part-1'', txSignature = ''SIG1'', spentLamports = Num 10000000,
          feePaid = 5000, rTimestamp = 2000, success = True, err = None\<rparr> \<and>
   amount example_offer = decimal 10000000 \<and> (10000000::nat) < 2 ^ 53 \<and>
   fst (execute example_chain (example_offer\<lparr>asset := ''USDC''\<rparr>) example_node) =
     Inr \<lparr>rPartId = ''part-1'', txSignature = ''SIG1'', spentLamports = Num 2000000,
          feePaid = 5000, rTimestamp = 2000, success = True, err = None\<rparr> \<and>
   getAccount example_chain ''ATA-RCPT'' = False"
proof -
  let ?r = "\<lparr>rPartId = ''part-1'', txSignature = ''SIG1'', spentLamports = Num 10000000,
          feePaid = 5000, rTimestamp = 2000, success = True, err = None\<rparr>"
  let ?u = "\<lparr>rPartId = ''part-1'', txSignature = ''SIG1'', spentLamports = Num 2000000,
          feePaid = 5000, rTimestamp = 2000, success = True, err = None\<rparr>"
  have r: "fst (execute example_chain example_offer example_node) = Inr ?r"
    by code_simp
  have u: "fst (execute example_chain (example_offer\<lparr>asset := ''USDC''\<rparr>) example_node) = Inr ?u"
    by code_simp
  have d: "amount example_offer = decimal 10000000"
    by code_simp
  have a: "asset example_offer = ''SOL''"
    by (simp add: example_offer_def)
  have "spentLamports ?r = Num (int 10000000)"
    using execute_success_receipt [OF r] a d by simp
  moreover have "\<exists>toATA. getAssociatedTokenAddress example_chain USDC_MINT ''RCPT'' = Inr toATA \<and>
      spentLamports ?u = (if getAccount example_chain toATA then Num 0 else Num 2000000)"
    using execute_success_receipt [OF u] by (simp add: example_offer_def)
  ultimately show ?thesis
    using r u d by (simp add: example_chain_def)
qed

section \<open>Balance validation\<close>

text \<open>
  C6. \<open>validateBalances\<close> throws exactly when every wallet's SOL balance is below 0.01, and
  then with the insufficient-balance message. When at least one wallet holds 0.01 SOL or
  more it returns normally; after the balance queries it logs the warning that lists the
  wallets below 0.01 (there is nothing to list, and no warning, when no wallet is below)
  and then the count of funded wallets.
\<close>

theorem validateBalances_threshold:
  "((\<exists>e. fst (validateBalances rpc s) = Inl e) \<longleftrightarrow>
      (\<forall>w\<in>set (fst (getBalances rpc s)). balanceSOL w < 1 / 100)) \<and>
   (\<forall>e. fst (validateBalances rpc s) = Inl e \<longrightarrow>
      e = ''All wallets have insufficient balance. Please fund your relay wallets.'') \<and>
   ((\<exists>w\<in>set (fst (getBalances rpc s)). 1 / 100 \<le> balanceSOL w) \<longrightarrow>
      fst (validateBalances rpc s) = Inr () \<and>
      trace (snd (validateBalances rpc s)) =
        trace (snd (getBalances rpc s)) @
        (if lowBalanceWallets (fst (getBalances rpc s)) = [] then []
         else [Log WARN (''Low balance wallets (< 0.01 SOL): '' @
                 join '', '' (map publicKey (lowBalanceWallets (fst (getBalances rpc s)))))]) @
        [Log INFO (decimal (length (fst (getBalances rpc s))
                            - length (lowBalanceWallets (fst (getBalances rpc s))))
                   @ ''/'' @ decimal (length (fst (getBalances rpc s)))
                   @ '' wallets properly funded'')])"
proof -
  obtain bs s1 where g: "getBalances rpc s = (bs, s1)"
    by (cases "getBalances rpc s")
  have not_all: "(\<exists>w\<in>set bs. 1 / 100 \<le> balanceSOL w) \<longleftrightarrow> length (lowBalanceWallets bs) \<noteq> length bs"
    by (auto simp: low_all not_less)
  show ?thesis
    unfolding validateBalances_def g
    by (auto simp: Let_def low_all logger_fields not_all)
qed

theorem validateBalances_threshold_witness:
  "map balanceSOL (fst (getBalances example_rpc example_node)) = [5 / 1000, 2 / 100, 0] \<and>
   fst (validateBalances example_rpc example_node) = Inr () \<and>
   trace (snd (validateBalances example_rpc example_node)) =
     [Log WARN ''Low balance wallets (< 0.01 SOL): R1, R3'', Log INFO ''1/3 wallets properly funded''] \<and>
   map balanceSOL (fst (getBalances
       (example_rpc\<lparr>getBalance := (\<lambda>k. if k = ''R2'' then Inr 9999999 else Inr 0)\<rparr>) example_node)) =
     [0, 9999999 / 1000000000, 0] \<and>
   fst (validateBalances
       (example_rpc\<lparr>getBalance := (\<lambda>k. if k = ''R2'' then Inr 9999999 else Inr 0)\<rparr>) example_node) =
     Inl ''All wallets have insufficient balance. Please fund your relay wallets.''"
proof -
  let ?poor = "example_rpc\<lparr>getBalance := (\<lambda>k. if k = ''R2'' then Inr 9999999 else Inr 0)\<rparr>"
  have g: "getBalances example_rpc example_node =
      ([\<lparr>publicKey = ''R1'', balanceSOL = 5 / 1000, balanceUSDC = None, isActive = True\<rparr>,
        \<lparr>publicKey = ''R2'', balanceSOL = 2 / 100, balanceUSDC = None, isActive = True\<rparr>,
        \<lparr>publicKey = ''R3'', balanceSOL = 0, balanceUSDC = None, isActive = False\<rparr>], example_node)"
    by (simp add: getBalances_def example_rpc_def example_node_def example_wallets_def
        LAMPORTS_PER_SOL_def)
  have p: "getBalances ?poor example_node =
      ([\<lparr>publicKey = ''R1'', balanceSOL = 0, balanceUSDC = None, isActive = False\<rparr>,
        \<lparr>publicKey = ''R2'', balanceSOL = 9999999 / 1000000000, balanceUSDC = None, isActive = True\<rparr>,
        \<lparr>publicKey = ''R3'', balanceSOL = 0, balanceUSDC = None, isActive = False\<rparr>], example_node)"
    by (simp add: getBalances_def example_rpc_def example_node_def example_wallets_def
        LAMPORTS_PER_SOL_def)
  have d: "decimal (Suc 0) = ''1''" "decimal (Suc (Suc (Suc 0))) = ''3''"
    by code_simp+
  have t: "trace example_node = []"
    by (simp add: example_node_def)
  have "fst (validateBalances example_rpc example_node) = Inr () \<and>
     trace (snd (validateBalances example_rpc example_node)) =
       [Log WARN ''Low balance wallets (< 0.01 SOL): R1, R3'', Log INFO ''1/3 wallets properly funded'']"
    using validateBalances_threshold [of example_rpc example_node]
    by (simp add: g lowBalanceWallets_def minBalance_def d t)
  moreover have "fst (validateBalances ?poor example_node) =
     Inl ''All wallets have insufficient balance. Please fund your relay wallets.''"
    using validateBalances_threshold [of ?poor example_node]
    by (auto simp: p)
  ultimately show ?thesis by (simp add: g p)
qed

section \<open>Health status\<close>

lemma getHealthStatus_status:
  "hsStatus (fst (getHealthStatus rpc s)) =
     (if \<forall>w\<in>set (fst (getBalances rpc s)). \<not> balanceSOL w < 1 / 100 then healthy
      else if \<forall>w\<in>set (fst (getBalances rpc s)). balanceSOL w < 1 / 100 then unhealthy
      else degraded)"
proof -
  obtain ws s1 where g: "getBalances rpc s = (ws, s1)"
    by (cases "getBalances rpc s")
  show ?thesis
  proof (cases "lowBalanceWallets ws = []")
    case True
    then have "\<forall>w\<in>set ws. \<not> balanceSOL w < 1 / 100"
      using low_none [of ws] by blast
    then show ?thesis
      using True by (simp add: getHealthStatus_def g Let_def)
  next
    case False
    then have some: "\<not> (\<forall>w\<in>set ws. \<not> balanceSOL w < 1 / 100)"
      using low_none [of ws] by blast
    show ?thesis
    proof (cases "length (lowBalanceWallets ws) = length ws")
      case True
      then have "\<forall>w\<in>set ws. balanceSOL w < 1 / 100"
        using low_all [of ws] by blast
      then show ?thesis
        using True False some by (simp add: getHealthStatus_def g Let_def)
    next
      case ne: False
      then have "\<not> (\<forall>w\<in>set ws. balanceSOL w < 1 / 100)"
        using low_all [of ws] by blast
      then show ?thesis
        using ne False some by (simp add: getHealthStatus_def g Let_def)
    qed
  qed
qed

text \<open>
  C10. The status in the health report is \<open>healthy\<close> when no wallet's SOL balance is below
  0.01, \<open>unhealthy\<close> when there are wallets and every one of them is below 0.01, and
  \<open>degraded\<close> when some wallet is below 0.01 and some is not. It is a function of the list
  of SOL balances alone.
\<close>

theorem getHealthStatus_from_balances:
  "((\<forall>w\<in>set (fst (getBalances rpc s)). \<not> balanceSOL w < 1 / 100) \<longrightarrow>
      hsStatus (fst (getHealthStatus rpc s)) = healthy) \<and>
   (fst (getBalances rpc s) \<noteq> [] \<and> (\<forall>w\<in>set (fst (getBalances rpc s)). balanceSOL w < 1 / 100) \<longrightarrow>
      hsStatus (fst (getHealthStatus rpc s)) = unhealthy) \<and>
   ((\<exists>w\<in>set (fst (getBalances rpc s)). balanceSOL w < 1 / 100) \<and>
    (\<exists>w\<in>set (fst (getBalances rpc s)). \<not> balanceSOL w < 1 / 100) \<longrightarrow>
      hsStatus (fst (getHealthStatus rpc s)) = degraded) \<and>
   hsStatus (fst (getHealthStatus rpc s)) =
     status_of_balances (map balanceSOL (fst (getBalances rpc s))) \<and>
   hsWallets (fst (getHealthStatus rpc s)) = fst (getBalances rpc s)"
proof -
  have w: "hsWallets (fst (getHealthStatus rpc s)) = fst (getBalances rpc s)"
    by (simp add: getHealthStatus_def Let_def split: prod.splits)
  have ne: "fst (getBalances rpc s) \<noteq> [] \<Longrightarrow> \<exists>w. w \<in> set (fst (getBalances rpc s))"
    by (cases "fst (getBalances rpc s)") auto
  show ?thesis
    unfolding getHealthStatus_status status_of_balances_def
    using w ne by auto
qed

theorem getHealthStatus_from_balances_witness:
  "hsStatus (fst (getHealthStatus (example_rpc\<lparr>getBalance := (\<lambda>k. Inr 20000000)\<rparr>) example_node)) = healthy \<and>
   hsStatus (fst (getHealthStatus (example_rpc\<lparr>getBalance := (\<lambda>k. Inr 9999999)\<rparr>) example_node)) = unhealthy \<and>
   hsStatus (fst (getHealthStatus example_rpc example_node)) = degraded \<and>
   map balanceSOL (fst (getBalances example_rpc example_node)) = [5 / 1000, 2 / 100, 0]"
proof -
  let ?rich = "example_rpc\<lparr>getBalance := (\<lambda>k. Inr 20000000)\<rparr>"
  let ?poor = "example_rpc\<lparr>getBalance := (\<lambda>k. Inr 9999999)\<rparr>"
  have g: "fst (getBalances example_rpc example_node) =
      [\<lparr>publicKey = ''R1'', balanceSOL = 5 / 1000, balanceUSDC = None, isActive = True\<rparr>,
       \<lparr>publicKey = ''R2'', balanceSOL = 2 / 100, balanceUSDC = None, isActive = True\<rparr>,
       \<lparr>publicKey = ''R3'', balanceSOL = 0, balanceUSDC = None, isActive = False\<rparr>]"
    by (simp add: getBalances_def example_rpc_def example_node_def example_wallets_def
        LAMPORTS_PER_SOL_def)
  have r: "fst (getBalances ?rich example_node) =
      [\<lparr>publicKey = ''R1'', balanceSOL = 2 / 100, balanceUSDC = None, isActive = True\<rparr>,
       \<lparr>publicKey = ''R2'', balanceSOL = 2 / 100, balanceUSDC = None, isActive = True\<rparr>,
       \<lparr>publicKey = ''R3'', balanceSOL = 2 / 100, balanceUSDC = None, isActive = True\<rparr>]"
    by (simp add: getBalances_def example_rpc_def example_node_def example_wallets_def
        LAMPORTS_PER_SOL_def)
  have p: "fst (getBalances ?poor example_node) =
      [\<lparr>publicKey = ''R1'', balanceSOL = 9999999 / 1000000000, balanceUSDC = None, isActive = True\<rparr>,
       \<lparr>publicKey = ''R2'', balanceSOL = 9999999 / 1000000000, balanceUSDC = None, isActive = True\<rparr>,
       \<lparr>publicKey = ''R3'', balanceSOL = 9999999 / 1000000000, balanceUSDC = None, isActive = True\<rparr>]"
    by (simp add: getBalances_def example_rpc_def example_node_def example_wallets_def
        LAMPORTS_PER_SOL_def)
  have "hsStatus (fst (getHealthStatus ?rich example_node)) = healthy"
    using getHealthStatus_from_balances [of ?rich example_node]
    by (simp add: r)
  moreover have "hsStatus (fst (getHealthStatus ?poor example_node)) = unhealthy"
    using getHealthStatus_from_balances [of ?poor example_node]
    by (simp add: p)
  moreover have "hsStatus (fst (getHealthStatus example_rpc example_node)) = degraded"
    using getHealthStatus_from_balances [of example_rpc example_node]
    by (simp add: g)
  ultimately show ?thesis using g by simp
qed

section \<open>Heartbeat\<close>

lemma getHealthStatus_extends: "extends_by_logs s (snd (getHealthStatus rpc s))"
  using getBalances_extends [of s rpc]
  by (auto simp: getHealthStatus_def Let_def split: prod.splits)

lemma sendHeartbeat_response:
  "fst (sendHeartbeat (Response st txt) hb s) = Inr ()"
  by (simp add: sendHeartbeat_def Let_def)

lemma sendHeartbeat_network:
  "fst (sendHeartbeat (NetworkError e) hb s) = Inl e"
  by (simp add: sendHeartbeat_def Let_def)

lemma startHeartbeat_tick_network:
  assumes "heartbeatResponse rpc = NetworkError e" and "json e = Inr t"
  shows "fst (startHeartbeat_tick rpc s) = Inr ()"
    and "heartbeatErrors (metrics (snd (startHeartbeat_tick rpc s))) = heartbeatErrors (metrics s) + 1"
    and "heartbeats (metrics (snd (startHeartbeat_tick rpc s))) = heartbeats (metrics s)"
    and "last (trace (snd (startHeartbeat_tick rpc s))) = Log WARN (''Heartbeat failed: '' @ t)"
proof -
  obtain st s1 where h: "getHealthStatus rpc s = (st, s1)"
    by (cases "getHealthStatus rpc s")
  have m: "metrics s1 = metrics s"
    using getHealthStatus_extends [of s rpc] h by (simp add: extends_by_logs_def)
  have j: "JSON_stringify e = Inr t"
    using assms(2) by (rule JSON_stringify_text)
  show "fst (startHeartbeat_tick rpc s) = Inr ()"
    using assms(1) j
    by (simp add: startHeartbeat_tick_def startHeartbeat_try_def h sendHeartbeat_def Let_def
        logger_error_def)
  show "heartbeatErrors (metrics (snd (startHeartbeat_tick rpc s))) = heartbeatErrors (metrics s) + 1"
    using assms(1) j m
    by (simp add: startHeartbeat_tick_def startHeartbeat_try_def h sendHeartbeat_def Let_def
        logger_error_def recordHeartbeatError_def logger_fields emit_fields)
  show "heartbeats (metrics (snd (startHeartbeat_tick rpc s))) = heartbeats (metrics s)"
    using assms(1) j m
    by (simp add: startHeartbeat_tick_def startHeartbeat_try_def h sendHeartbeat_def Let_def
        logger_error_def recordHeartbeatError_def logger_fields emit_fields)
  show "last (trace (snd (startHeartbeat_tick rpc s))) = Log WARN (''Heartbeat failed: '' @ t)"
    using assms(1) j
    by (simp add: startHeartbeat_tick_def startHeartbeat_try_def h sendHeartbeat_def Let_def
        logger_error_def recordHeartbeatError_def logger_fields emit_fields)
qed

lemma startHeartbeat_tick_response:
  assumes "heartbeatResponse rpc = Response st txt"
  shows "fst (startHeartbeat_tick rpc s) = Inr ()"
  using assms
  by (simp add: startHeartbeat_tick_def startHeartbeat_try_def sendHeartbeat_def Let_def
      split: prod.splits)

lemma startHeartbeat_tick_returns:
  assumes "\<And>e. heartbeatResponse rpc = NetworkError e \<Longrightarrow> \<exists>t. json e = Inr t"
  shows "fst (startHeartbeat_tick rpc s) = Inr ()"
proof (cases "heartbeatResponse rpc")
  case (NetworkError e)
  from assms [OF this] obtain t where "json e = Inr t" by blast
  with NetworkError show ?thesis by (rule startHeartbeat_tick_network(1))
next
  case (Response st msg)
  then show ?thesis by (rule startHeartbeat_tick_response)
qed

lemma startHeartbeat_tick_rejected:
  assumes "heartbeatResponse rpc = Response st txt" and "\<not> response_ok st"
  shows "heartbeatErrors (metrics (snd (startHeartbeat_tick rpc s))) = heartbeatErrors (metrics s)"
    and "heartbeats (metrics (snd (startHeartbeat_tick rpc s))) = heartbeats (metrics s) + 1"
    and "Log WARN (''Heartbeat failed: '' @ txt) \<in> set (trace (snd (startHeartbeat_tick rpc s)))"
proof -
  obtain hs s1 where h: "getHealthStatus rpc s = (hs, s1)"
    by (cases "getHealthStatus rpc s")
  have m: "metrics s1 = metrics s"
    using getHealthStatus_extends [of s rpc] h by (simp add: extends_by_logs_def)
  show "heartbeatErrors (metrics (snd (startHeartbeat_tick rpc s))) = heartbeatErrors (metrics s)"
    using assms m
    by (simp add: startHeartbeat_tick_def startHeartbeat_try_def h sendHeartbeat_def Let_def
        recordHeartbeat_def logger_fields emit_fields)
  show "heartbeats (metrics (snd (startHeartbeat_tick rpc s))) = heartbeats (metrics s) + 1"
    using assms m
    by (simp add: startHeartbeat_tick_def startHeartbeat_try_def h sendHeartbeat_def Let_def
        recordHeartbeat_def logger_fields emit_fields)
  show "Log WARN (''Heartbeat failed: '' @ txt) \<in> set (trace (snd (startHeartbeat_tick rpc s)))"
    using assms
    by (simp add: startHeartbeat_tick_def startHeartbeat_try_def h sendHeartbeat_def Let_def
        recordHeartbeat_def logger_fields emit_fields)
qed

text \<open>
  C9, as stated, fails: a transport error of \<open>fetch\<close> is thrown by \<open>sendHeartbeat\<close> to its
  caller.
\<close>

theorem sendHeartbeat_throws_counterexample:
  "\<not> (\<forall>resp hb s. \<exists>u. fst (sendHeartbeat resp hb s) = Inr u)"
proof
  assume "\<forall>resp hb s. \<exists>u. fst (sendHeartbeat resp hb s) = Inr u"
  then have "\<exists>u. fst (sendHeartbeat (NetworkError (new_Error ''fetch failed''))
      \<lparr>hbTimestamp = 3000, hbStatus = healthy, hbBalances = [], hbActiveOffers = 0,
       hbVersion = ''1.0.0''\<rparr> example_node) = Inr u"
    by blast
  then show False
    by (simp add: sendHeartbeat_network)
qed

text \<open>
  C9, amended. \<open>sendHeartbeat\<close> returns normally on every HTTP response (a non-success
  status is logged by it and nothing else) and throws the transport error of \<open>fetch\<close> to
  its caller, the timer callback of \<open>startHeartbeat\<close>. The callback catches a transport
  error that the logger can print (\<open>JSON.stringify\<close> of the error gives a text): it
  returns normally, having written the line \<open>Heartbeat failed:\<close> followed by that text and
  counted one heartbeat error. On every HTTP response the callback returns normally too; a
  non-success response leaves the error counter alone and is counted as a heartbeat sent.
\<close>

theorem heartbeat_failures_contained:
  "(\<forall>st txt. fst (sendHeartbeat (Response st txt) hb s) = Inr ()) \<and>
   (\<forall>e. fst (sendHeartbeat (NetworkError e) hb s) = Inl e) \<and>
   ((\<forall>e. heartbeatResponse rpc = NetworkError e \<longrightarrow> (\<exists>t. json e = Inr t)) \<longrightarrow>
      fst (startHeartbeat_tick rpc s) = Inr ()) \<and>
   (\<forall>e t. heartbeatResponse rpc = NetworkError e \<and> json e = Inr t \<longrightarrow>
      fst (startHeartbeat_tick rpc s) = Inr () \<and>
      heartbeatErrors (metrics (snd (startHeartbeat_tick rpc s))) = heartbeatErrors (metrics s) + 1 \<and>
      heartbeats (metrics (snd (startHeartbeat_tick rpc s))) = heartbeats (metrics s) \<and>
      last (trace (snd (startHeartbeat_tick rpc s))) = Log WARN (''Heartbeat failed: '' @ t)) \<and>
   (\<forall>st txt. heartbeatResponse rpc = Response st txt \<and> \<not> response_ok st \<longrightarrow>
      fst (startHeartbeat_tick rpc s) = Inr () \<and>
      heartbeatErrors (metrics (snd (startHeartbeat_tick rpc s))) = heartbeatErrors (metrics s) \<and>
      heartbeats (metrics (snd (startHeartbeat_tick rpc s))) = heartbeats (metrics s) + 1 \<and>
      Log WARN (''Heartbeat failed: '' @ txt) \<in> set (trace (snd (startHeartbeat_tick rpc s))))"
proof (intro conjI allI impI)
  fix st msg
  show "fst (sendHeartbeat (Response st msg) hb s) = Inr ()"
    by (rule sendHeartbeat_response)
next
  fix e
  show "fst (sendHeartbeat (NetworkError e) hb s) = Inl e"
    by (rule sendHeartbeat_network)
next
  assume "\<forall>e. heartbeatResponse rpc = NetworkError e \<longrightarrow> (\<exists>t. json e = Inr t)"
  then show "fst (startHeartbeat_tick rpc s) = Inr ()"
    by (intro startHeartbeat_tick_returns) blast
next
  fix e t
  assume a: "heartbeatResponse rpc = NetworkError e \<and> json e = Inr t"
  then have a1: "heartbeatResponse rpc = NetworkError e" and a2: "json e = Inr t"
    by simp_all
  show "fst (startHeartbeat_tick rpc s) = Inr ()"
    using a1 a2 by (rule startHeartbeat_tick_network(1))
  show "heartbeatErrors (metrics (snd (startHeartbeat_tick rpc s))) = heartbeatErrors (metrics s) + 1"
    using a1 a2 by (rule startHeartbeat_tick_network(2))
  show "heartbeats (metrics (snd (startHeartbeat_tick rpc s))) = heartbeats (metrics s)"
    using a1 a2 by (rule startHeartbeat_tick_network(3))
  show "last (trace (snd (startHeartbeat_tick rpc s))) = Log WARN (''Heartbeat failed: '' @ t)"
    using a1 a2 by (rule startHeartbeat_tick_network(4))
next
  fix st msg
  assume a: "heartbeatResponse rpc = Response st msg \<and> \<not> response_ok st"
  then have a1: "heartbeatResponse rpc = Response st msg" and a2: "\<not> response_ok st"
    by simp_all
  show "fst (startHeartbeat_tick rpc s) = Inr ()"
    using a1 by (rule startHeartbeat_tick_response)
  show "heartbeatErrors (metrics (snd (startHeartbeat_tick rpc s))) = heartbeatErrors (metrics s)"
    using a1 a2 by (rule startHeartbeat_tick_rejected(1))
  show "heartbeats (metrics (snd (startHeartbeat_tick rpc s))) = heartbeats (metrics s) + 1"
    using a1 a2 by (rule startHeartbeat_tick_rejected(2))
  show "Log WARN (''Heartbeat failed: '' @ msg) \<in> set (trace (snd (startHeartbeat_tick rpc s)))"
    using a1 a2 by (rule startHeartbeat_tick_rejected(3))
qed

theorem heartbeat_failures_contained_witness:
  "json (new_Error ''fetch failed'') = Inr ''{}'' \<and>
   fst (startHeartbeat_tick
      (example_rpc\<lparr>heartbeatResponse := NetworkError (new_Error ''fetch failed'')\<rparr>) example_node) = Inr () \<and>
   heartbeatErrors (metrics (snd (startHeartbeat_tick
      (example_rpc\<lparr>heartbeatResponse := NetworkError (new_Error ''fetch failed'')\<rparr>) example_node))) = 1 \<and>
   last (trace (snd (startHeartbeat_tick
      (example_rpc\<lparr>heartbeatResponse := NetworkError (new_Error ''fetch failed'')\<rparr>) example_node))) =
     Log WARN ''Heartbeat failed: {}'' \<and>
   \<not> response_ok 500 \<and>
   fst (startHeartbeat_tick
      (example_rpc\<lparr>heartbeatResponse := Response 500 ''Internal Server Error''\<rparr>) example_node) = Inr () \<and>
   heartbeatErrors (metrics (snd (startHeartbeat_tick
      (example_rpc\<lparr>heartbeatResponse := Response 500 ''Internal Server Error''\<rparr>) example_node))) = 0 \<and>
   heartbeats (metrics (snd (startHeartbeat_tick
      (example_rpc\<lparr>heartbeatResponse := Response 500 ''Internal Server Error''\<rparr>) example_node))) = 1 \<and>
   Log WARN ''Heartbeat failed: Internal Server Error'' \<in> set (trace (snd (startHeartbeat_tick
      (example_rpc\<lparr>heartbeatResponse := Response 500 ''Internal Server Error''\<rparr>) example_node)))"
  using heartbeat_failures_contained
      [where rpc = "example_rpc\<lparr>heartbeatResponse := NetworkError (new_Error ''fetch failed'')\<rparr>"
         and s = example_node]
    heartbeat_failures_contained
      [where rpc = "example_rpc\<lparr>heartbeatResponse := Response 500 ''Internal Server Error''\<rparr>"
         and s = example_node]
  by (simp add: response_ok_def example_node_def new_Error_def)

section \<open>Losing the claim\<close>

text \<open>
  C4. \<open>acceptOffer\<close> returns \<open>false\<close> exactly on a response with status 409. When an
  admitted offer's claim is answered 409, \<open>handleOffer\<close> returns having only logged the
  offer, sent the claim request and logged the lost claim: the active set is as before,
  no \<open>activeOffers.set\<close> happened, no receipt request was sent, and nothing else changed.
\<close>

theorem handleOffer_claim_conflict:
  "(fst (acceptOffer resp acceptance s) = Inr False \<longleftrightarrow> (\<exists>t. resp = Response 409 t)) \<and>
   (fst (validateOffer (validateTime orc) off s) \<and> acceptResponse orc = Response 409 txt \<longrightarrow>
      handleOffer orc off s =
        (Inr (), s\<lparr>trace := trace s @
           [Log INFO (''Received offer '' @ oid off @ '' ('' @ asset off @ '' '' @ amount off @ '')''),
            AcceptRequest \<lparr>offerId = oid off, nodeId = pubkeyText (nodeKeypair (walletManager s)),
                           timestamp = acceptTime orc\<rparr>,
            Log INFO (''Offer '' @ oid off @ '' was claimed by another node'')]\<rparr>) \<and>
      activeOffers (snd (handleOffer orc off s)) = activeOffers s \<and>
      (\<forall>e\<in>set (events_since s (snd (handleOffer orc off s))).
          (\<forall>k. e \<noteq> ActiveSet k) \<and> (\<forall>r. e \<noteq> ReceiptRequest r)))"
proof (intro conjI impI)
  show "fst (acceptOffer resp acceptance s) = Inr False \<longleftrightarrow> (\<exists>t. resp = Response 409 t)"
    by (cases resp) (auto simp: acceptOffer_def Let_def)
next
  assume a: "fst (validateOffer (validateTime orc) off s) \<and> acceptResponse orc = Response 409 txt"
  then have h: "handleOffer orc off s =
        (Inr (), s\<lparr>trace := trace s @
           [Log INFO (''Received offer '' @ oid off @ '' ('' @ asset off @ '' '' @ amount off @ '')''),
            AcceptRequest \<lparr>offerId = oid off, nodeId = pubkeyText (nodeKeypair (walletManager s)),
                           timestamp = acceptTime orc\<rparr>,
            Log INFO (''Offer '' @ oid off @ '' was claimed by another node'')]\<rparr>)"
    by (simp add: handleOffer_claim_lost)
  show "handleOffer orc off s =
        (Inr (), s\<lparr>trace := trace s @
           [Log INFO (''Received offer '' @ oid off @ '' ('' @ asset off @ '' '' @ amount off @ '')''),
            AcceptRequest \<lparr>offerId = oid off, nodeId = pubkeyText (nodeKeypair (walletManager s)),
                           timestamp = acceptTime orc\<rparr>,
            Log INFO (''Offer '' @ oid off @ '' was claimed by another node'')]\<rparr>)"
    by (rule h)
  show "activeOffers (snd (handleOffer orc off s)) = activeOffers s"
    by (simp add: h)
  show "\<forall>e\<in>set (events_since s (snd (handleOffer orc off s))).
          (\<forall>k. e \<noteq> ActiveSet k) \<and> (\<forall>r. e \<noteq> ReceiptRequest r)"
    by (auto simp: h events_since_def)
qed

theorem handleOffer_claim_conflict_witness:
  "fst (validateOffer 1001 example_offer example_node) \<and>
   handleOffer (example_oracle\<lparr>acceptResponse := Response 409 ''Conflict''\<rparr>) example_offer example_node =
     (Inr (), example_node\<lparr>trace :=
        [Log INFO ''Received offer offer-1 (SOL 10000000)'',
         AcceptRequest \<lparr>offerId = ''offer-1'', nodeId = ''NODE'', timestamp = 1002\<rparr>,
         Log INFO ''Offer offer-1 was claimed by another node'']\<rparr>)"
proof -
  have v: "fst (validateOffer 1001 example_offer example_node)"
    by code_simp
  show ?thesis
    using v handleOffer_claim_conflict
      [of _ _ example_node "example_oracle\<lparr>acceptResponse := Response 409 ''Conflict''\<rparr>"
         example_offer "''Conflict''"]
    by (simp add: example_oracle_def) (simp add: example_offer_def example_node_def example_wallets_def)
qed

section \<open>Admission\<close>

lemma two_53: "(2::nat) ^ 53 = 9007199254740992"
  by simp

lemma maxPerTx_decimal:
  "MAX_PER_TX_LAMPORTS s = Some (decimal c) \<Longrightarrow> c < 2 ^ 53 \<Longrightarrow> maxPerTx s = Num (int c)"
  by (simp add: maxPerTx_def decimal_nonempty parseInt_decimal)

lemma maxPerTx_default: "MAX_PER_TX_LAMPORTS s = None \<Longrightarrow> maxPerTx s = Num 500000000"
proof -
  have "parseInt ''500000000'' = Num 500000000" by code_simp
  then show "MAX_PER_TX_LAMPORTS s = None \<Longrightarrow> maxPerTx s = Num 500000000"
    by (simp add: maxPerTx_def)
qed

lemma parseInt_decimal_gt:
  "c < 2 ^ 53 \<Longrightarrow> c < n \<Longrightarrow> number_gt (parseInt (decimal n)) (Num (int c))"
  unfolding parseInt_decimal_double
  by (rule to_double_gt) simp_all

text \<open>
  C5, as stated, fails twice. On the expiry: \<open>validateOffer\<close> rejects an offer only once the
  clock has passed \<open>expiresAt\<close>, so an offer that expires at the very reading of the clock,
  whose expiry is not in the future, is admitted. On the ceiling: the amount and the
  ceiling are compared as doubles, so the SOL offer of 9007199254740993 lamports
  (\<open>2^53 + 1\<close>), which \<open>parseInt\<close> reads as 9007199254740992, is admitted against the ceiling
  9007199254740992 that it exceeds.
\<close>

theorem validateOffer_expiry_counterexample:
  "\<not> (\<forall>now off s. fst (validateOffer now off s) \<longrightarrow> (\<forall>e. expiresAt off = Some e \<longrightarrow> now < e)) \<and>
   \<not> (\<forall>now off s n c. asset off = ''SOL'' \<and> amount off = decimal n \<and>
         MAX_PER_TX_LAMPORTS s = Some (decimal c) \<and> c < n \<longrightarrow> \<not> fst (validateOffer now off s))"
proof
  show "\<not> (\<forall>now off s. fst (validateOffer now off s) \<longrightarrow> (\<forall>e. expiresAt off = Some e \<longrightarrow> now < e))"
  proof
    assume a: "\<forall>now off s. fst (validateOffer now off s) \<longrightarrow> (\<forall>e. expiresAt off = Some e \<longrightarrow> now < e)"
    have "fst (validateOffer 1000 (example_offer\<lparr>expiresAt := Some 1000\<rparr>) example_node)"
      by code_simp
    with a have "\<forall>e. expiresAt (example_offer\<lparr>expiresAt := Some 1000\<rparr>) = Some e \<longrightarrow> (1000::int) < e"
      by blast
    then show False by simp
  qed
  show "\<not> (\<forall>now off s n c. asset off = ''SOL'' \<and> amount off = decimal n \<and>
         MAX_PER_TX_LAMPORTS s = Some (decimal c) \<and> c < n \<longrightarrow> \<not> fst (validateOffer now off s))"
  proof
    let ?big = "example_offer\<lparr>amount := ''9007199254740993''\<rparr>"
    let ?s = "example_node\<lparr>MAX_PER_TX_LAMPORTS := Some ''9007199254740992''\<rparr>"
    assume a: "\<forall>now off s n c. asset off = ''SOL'' \<and> amount off = decimal n \<and>
         MAX_PER_TX_LAMPORTS s = Some (decimal c) \<and> c < n \<longrightarrow> \<not> fst (validateOffer now off s)"
    have v: "fst (validateOffer 1001 ?big ?s)"
      by code_simp
    have h: "asset ?big = ''SOL''" "amount ?big = decimal 9007199254740993"
        "MAX_PER_TX_LAMPORTS ?s = Some (decimal 9007199254740992)"
      by code_simp+
    have "asset ?big = ''SOL'' \<and> amount ?big = decimal 9007199254740993 \<and>
         MAX_PER_TX_LAMPORTS ?s = Some (decimal 9007199254740992) \<and>
         (9007199254740992::nat) < 9007199254740993 \<longrightarrow> \<not> fst (validateOffer 1001 ?big ?s)"
      using a by blast
    with h v show False by simp
  qed
qed

text \<open>
  C5, amended. A SOL offer whose amount, read by \<open>parseInt\<close> into a double, exceeds the
  ceiling, read the same way, is rejected whatever the size of the active set and the
  expiry, and \<open>handleOffer\<close> then returns having written three log lines only, with no claim
  request. This covers every amount written as a decimal numeral that exceeds a ceiling
  below \<open>2^53\<close>, configured as a decimal numeral or left at its default of 500000000.
  Admission is exactly: not (SOL and over the ceiling), active-set size below
  \<open>maxConcurrent\<close>, and an expiry that is absent, zero, or not earlier than the reading of
  the clock.
\<close>

theorem validateOffer_admission:
  "(asset off = ''SOL'' \<and> number_gt (parseInt (amount off)) (maxPerTx s) \<longrightarrow>
      \<not> fst (validateOffer now off s) \<and>
      handleOffer orc off s =
        (Inr (), s\<lparr>trace := trace s @
           [Log INFO (''Received offer '' @ oid off @ '' ('' @ asset off @ '' '' @ amount off @ '')''),
            LogNumber WARN (''Offer '' @ oid off @ '' exceeds per-tx limit: '' @ amount off @ '' > '')
              (maxPerTx s) [],
            Log WARN (''Invalid offer '' @ oid off @ '', skipping'')]\<rparr>)) \<and>
   (\<forall>n c. asset off = ''SOL'' \<and> amount off = decimal n \<and>
      MAX_PER_TX_LAMPORTS s = Some (decimal c) \<and> c < 2 ^ 53 \<and> c < n \<longrightarrow>
      \<not> fst (validateOffer now off s)) \<and>
   (\<forall>n. asset off = ''SOL'' \<and> amount off = decimal n \<and>
      MAX_PER_TX_LAMPORTS s = None \<and> 500000000 < n \<longrightarrow> \<not> fst (validateOffer now off s)) \<and>
   (fst (validateOffer now off s) \<longleftrightarrow>
      \<not> (asset off = ''SOL'' \<and> number_gt (parseInt (amount off)) (maxPerTx s)) \<and>
      int (activeSize s) < maxConcurrent (config s) \<and>
      (\<forall>e. expiresAt off = Some e \<and> e \<noteq> 0 \<longrightarrow> now \<le> e))"
proof (intro conjI allI impI)
  assume a: "asset off = ''SOL'' \<and> number_gt (parseInt (amount off)) (maxPerTx s)"
  then show "\<not> fst (validateOffer now off s)"
    by (simp add: validateOffer_admits)
  from a show "handleOffer orc off s =
        (Inr (), s\<lparr>trace := trace s @
           [Log INFO (''Received offer '' @ oid off @ '' ('' @ asset off @ '' '' @ amount off @ '')''),
            LogNumber WARN (''Offer '' @ oid off @ '' exceeds per-tx limit: '' @ amount off @ '' > '')
              (maxPerTx s) [],
            Log WARN (''Invalid offer '' @ oid off @ '', skipping'')]\<rparr>)"
    by (intro handleOffer_over_limit) simp_all
next
  fix n c
  assume a: "asset off = ''SOL'' \<and> amount off = decimal n \<and>
      MAX_PER_TX_LAMPORTS s = Some (decimal c) \<and> c < 2 ^ 53 \<and> c < n"
  then have "maxPerTx s = Num (int c)"
    by (intro maxPerTx_decimal) simp_all
  moreover have "number_gt (parseInt (decimal n)) (Num (int c))"
    using a by (intro parseInt_decimal_gt) simp_all
  ultimately show "\<not> fst (validateOffer now off s)"
    using a by (simp add: validateOffer_admits)
next
  fix n
  assume a: "asset off = ''SOL'' \<and> amount off = decimal n \<and>
      MAX_PER_TX_LAMPORTS s = None \<and> 500000000 < n"
  then have "maxPerTx s = Num (int 500000000)"
    by (simp add: maxPerTx_default)
  moreover have "number_gt (parseInt (decimal n)) (Num (int 500000000))"
    using a by (intro parseInt_decimal_gt) simp_all
  ultimately show "\<not> fst (validateOffer now off s)"
    using a by (simp add: validateOffer_admits)
next
  show "fst (validateOffer now off s) \<longleftrightarrow>
      \<not> (asset off = ''SOL'' \<and> number_gt (parseInt (amount off)) (maxPerTx s)) \<and>
      int (activeSize s) < maxConcurrent (config s) \<and>
      (\<forall>e. expiresAt off = Some e \<and> e \<noteq> 0 \<longrightarrow> now \<le> e)"
    by (rule validateOffer_admits)
qed

theorem validateOffer_admission_witness:
  "decimal 600000000 = ''600000000'' \<and> decimal 550000000 = ''550000000'' \<and>
   (550000000::nat) < 2 ^ 53 \<and>
   \<not> fst (validateOffer 1001 (example_offer\<lparr>amount := ''600000000''\<rparr>) example_node) \<and>
   handleOffer example_oracle (example_offer\<lparr>amount := ''600000000''\<rparr>) example_node =
     (Inr (), example_node\<lparr>trace :=
        [Log INFO ''Received offer offer-1 (SOL 600000000)'',
         LogNumber WARN ''Offer offer-1 exceeds per-tx limit: 600000000 > '' (Num 500000000) [],
         Log WARN ''Invalid offer offer-1, skipping'']\<rparr>) \<and>
   \<not> fst (validateOffer 1001 (example_offer\<lparr>amount := ''600000000''\<rparr>)
          (example_node\<lparr>MAX_PER_TX_LAMPORTS := Some ''550000000''\<rparr>)) \<and>
   fst (validateOffer 1001 (example_offer\<lparr>asset := ''USDC'', amount := ''600000000''\<rparr>) example_node)"
proof -
  let ?big = "example_offer\<lparr>amount := ''600000000''\<rparr>"
  have d: "decimal 600000000 = ''600000000''" "decimal 550000000 = ''550000000''"
    by code_simp+
  have m: "maxPerTx example_node = Num 500000000"
    by code_simp
  have p: "parseInt ''600000000'' = Num 600000000"
    by code_simp
  have sz: "activeSize example_node = 0" "maxConcurrent (config example_node) = 5"
    by (simp_all add: activeSize_def example_node_def)
  have t: "trace example_node = []" "MAX_PER_TX_LAMPORTS example_node = None"
    by (simp_all add: example_node_def)
  have o: "asset ?big = ''SOL''" "amount ?big = ''600000000''" "oid ?big = ''offer-1''"
    by (simp_all add: example_offer_def)
  have a: "\<not> fst (validateOffer 1001 ?big example_node) \<and>
      handleOffer example_oracle ?big example_node =
        (Inr (), example_node\<lparr>trace :=
           [Log INFO ''Received offer offer-1 (SOL 600000000)'',
            LogNumber WARN ''Offer offer-1 exceeds per-tx limit: 600000000 > '' (Num 500000000) [],
            Log WARN ''Invalid offer offer-1, skipping'']\<rparr>)"
    using validateOffer_admission [of ?big example_node 1001 example_oracle]
    by (simp add: o m p t)
  let ?s = "example_node\<lparr>MAX_PER_TX_LAMPORTS := Some ''550000000''\<rparr>"
  have "asset ?big = ''SOL'' \<and> amount ?big = decimal 600000000 \<and>
      MAX_PER_TX_LAMPORTS ?s = Some (decimal 550000000) \<and> (550000000::nat) < 2 ^ 53 \<and>
      (550000000::nat) < 600000000 \<longrightarrow>
      \<not> fst (validateOffer 1001 ?big ?s)"
    using validateOffer_admission [of ?big ?s 1001 example_oracle] by blast
  then have b: "\<not> fst (validateOffer 1001 ?big ?s)"
    by (simp add: o d)
  have c: "fst (validateOffer 1001 (example_offer\<lparr>asset := ''USDC'', amount := ''600000000''\<rparr>) example_node)"
    using validateOffer_admission
      [of "example_offer\<lparr>asset := ''USDC'', amount := ''600000000''\<rparr>" example_node 1001 example_oracle]
    by (simp add: sz) (simp add: example_offer_def)
  from d a b c show ?thesis by simp
qed

section \<open>The active set does not leak\<close>

text \<open>
  C1. When an offer passes admission and its claim is accepted, it is inserted into the
  active set, and whatever the chain and the dispatcher answer afterwards (a failed
  receipt, an error thrown by \<open>execute\<close>, an error thrown while the receipt is submitted),
  \<open>handleOffer\<close> ends with no entry for the offer's id in the active set: the set is the
  initial one without that id, and in the trace the insertion is followed by the deletion
  and by no further insertion. \<open>handleOffer\<close> returns without throwing, except when the
  receipt request fails with a transport error that the logger of the \<open>catch\<close> block cannot
  print: it then throws the error of \<open>JSON.stringify\<close>, after the deletion.
\<close>

theorem handleOffer_releases_active_offer:
  assumes "fst (validateOffer (validateTime orc) off s)"
    and "acceptResponse orc = Response st txt" and "st \<noteq> 409" and "response_ok st"
  shows "(fst (handleOffer orc off s) = Inr () \<or>
      (\<exists>e m. receiptResponse orc = NetworkError e \<and> json e = Inl m \<and>
         fst (handleOffer orc off s) = Inl (new_Error m))) \<and>
     map_of (activeOffers (snd (handleOffer orc off s))) (oid off) = None \<and>
     activeOffers (snd (handleOffer orc off s)) = AList.delete (oid off) (activeOffers s) \<and>
     (\<exists>before after.
        events_since s (snd (handleOffer orc off s)) = before @ ActiveSet (oid off) # after \<and>
        ActiveDelete (oid off) \<in> set after \<and> (\<forall>k. ActiveSet k \<notin> set after))"
proof -
  from handleOffer_claimed [OF assms] obtain rest where
    a: "activeOffers (snd (handleOffer orc off s)) = AList.delete (oid off) (activeOffers s)" and
    t: "trace (snd (handleOffer orc off s)) =
       trace s @
       [Log INFO (''Received offer '' @ oid off @ '' ('' @ asset off @ '' '' @ amount off @ '')''),
        AcceptRequest \<lparr>offerId = oid off, nodeId = pubkeyText (nodeKeypair (walletManager s)),
                       timestamp = acceptTime orc\<rparr>,
        ActiveSet (oid off),
        Log INFO (''Accepted offer '' @ oid off @ '', executing...'')] @ rest" and
    d: "ActiveDelete (oid off) \<in> set rest" and n: "\<forall>k. ActiveSet k \<notin> set rest"
    by blast
  let ?before = "[Log INFO (''Received offer '' @ oid off @ '' ('' @ asset off @ '' '' @ amount off @ '')''),
        AcceptRequest \<lparr>offerId = oid off, nodeId = pubkeyText (nodeKeypair (walletManager s)),
                       timestamp = acceptTime orc\<rparr>]"
  let ?after = "Log INFO (''Accepted offer '' @ oid off @ '', executing...'') # rest"
  have ev: "events_since s (snd (handleOffer orc off s)) = ?before @ ActiveSet (oid off) # ?after"
    by (simp add: events_since_def t)
  have none: "\<forall>k. ActiveSet k \<notin> set ?after"
    using n by simp
  have del: "ActiveDelete (oid off) \<in> set ?after"
    using d by simp
  have m: "map_of (activeOffers (snd (handleOffer orc off s))) (oid off) = None"
    by (simp add: a delete_conv)
  have r: "fst (handleOffer orc off s) = Inr () \<or>
      (\<exists>e m. receiptResponse orc = NetworkError e \<and> json e = Inl m \<and>
         fst (handleOffer orc off s) = Inl (new_Error m))"
    using assms by (rule handleOffer_claimed_result)
  from ev none del have "\<exists>before after.
        events_since s (snd (handleOffer orc off s)) = before @ ActiveSet (oid off) # after \<and>
        ActiveDelete (oid off) \<in> set after \<and> (\<forall>k. ActiveSet k \<notin> set after)"
    by blast
  with m a r show ?thesis by blast
qed

theorem handleOffer_releases_active_offer_witness:
  "fst (validateOffer 1001 example_offer example_node) \<and>
   response_ok 200 \<and> \<not> response_ok 500 \<and>
   fst (handleOffer example_oracle example_offer example_node) = Inr () \<and>
   map_of (activeOffers (snd (handleOffer example_oracle example_offer example_node))) ''offer-1'' = None \<and>
   map_of (activeOffers (snd (handleOffer example_oracle (example_offer\<lparr>asset := ''BTC''\<rparr>)
      example_node))) ''offer-1'' = None \<and>
   map_of (activeOffers (snd (handleOffer
      (example_oracle\<lparr>receiptResponse := Response 500 ''Internal Server Error''\<rparr>)
      example_offer example_node))) ''offer-1'' = None \<and>
   fst (handleOffer
      (example_oracle\<lparr>receiptResponse := NetworkError (new_Error ''fetch failed'')\<rparr>)
      example_offer example_node) = Inr () \<and>
   map_of (activeOffers (snd (handleOffer
      (example_oracle\<lparr>receiptResponse := NetworkError (new_Error ''fetch failed'')\<rparr>)
      example_offer example_node))) ''offer-1'' = None \<and>
   fst (handleOffer
      (example_oracle\<lparr>receiptResponse := NetworkError example_bigint_error\<rparr>)
      example_offer example_node) = Inl (new_Error ''Do not know how to serialize a BigInt'') \<and>
   map_of (activeOffers (snd (handleOffer
      (example_oracle\<lparr>receiptResponse := NetworkError example_bigint_error\<rparr>)
      example_offer example_node))) ''offer-1'' = None"
proof -
  have v: "fst (validateOffer 1001 example_offer example_node)"
      "fst (validateOffer 1001 (example_offer\<lparr>asset := ''BTC''\<rparr>) example_node)"
    by code_simp+
  have ok: "response_ok 200" "\<not> response_ok 500" "(200::nat) \<noteq> 409"
    by (simp_all add: response_ok_def)
  have o: "oid example_offer = ''offer-1''"
    by (simp add: example_offer_def)
  have 1: "fst (handleOffer example_oracle example_offer example_node) = Inr () \<and>
      map_of (activeOffers (snd (handleOffer example_oracle example_offer example_node))) ''offer-1'' = None"
    using handleOffer_releases_active_offer [of example_oracle example_offer example_node 200 "''OK''"] v ok
    by (simp add: example_oracle_def o delete_conv)
  have 2: "map_of (activeOffers (snd (handleOffer example_oracle (example_offer\<lparr>asset := ''BTC''\<rparr>)
      example_node))) ''offer-1'' = None"
    using handleOffer_releases_active_offer
      [of example_oracle "example_offer\<lparr>asset := ''BTC''\<rparr>" example_node 200 "''OK''"] v ok
    by (simp add: example_oracle_def o delete_conv)
  have 3: "map_of (activeOffers (snd (handleOffer
      (example_oracle\<lparr>receiptResponse := Response 500 ''Internal Server Error''\<rparr>)
      example_offer example_node))) ''offer-1'' = None"
    using handleOffer_releases_active_offer
      [of "example_oracle\<lparr>receiptResponse := Response 500 ''Internal Server Error''\<rparr>"
         example_offer example_node 200 "''OK''"] v ok
    by (simp add: example_oracle_def o delete_conv)
  have 4: "fst (handleOffer
      (example_oracle\<lparr>receiptResponse := NetworkError (new_Error ''fetch failed'')\<rparr>)
      example_offer example_node) = Inr () \<and>
    map_of (activeOffers (snd (handleOffer
      (example_oracle\<lparr>receiptResponse := NetworkError (new_Error ''fetch failed'')\<rparr>)
      example_offer example_node))) ''offer-1'' = None"
    using handleOffer_releases_active_offer
      [of "example_oracle\<lparr>receiptResponse := NetworkError (new_Error ''fetch failed'')\<rparr>"
         example_offer example_node 200 "''OK''"] v ok
    by (simp add: example_oracle_def o delete_conv new_Error_def)
  have t: "fst (handleOffer
      (example_oracle\<lparr>receiptResponse := NetworkError example_bigint_error\<rparr>)
      example_offer example_node) = Inl (new_Error ''Do not know how to serialize a BigInt'')"
    by code_simp
  have 5: "fst (handleOffer
      (example_oracle\<lparr>receiptResponse := NetworkError example_bigint_error\<rparr>)
      example_offer example_node) = Inl (new_Error ''Do not know how to serialize a BigInt'') \<and>
    map_of (activeOffers (snd (handleOffer
      (example_oracle\<lparr>receiptResponse := NetworkError example_bigint_error\<rparr>)
      example_offer example_node))) ''offer-1'' = None"
    using handleOffer_releases_active_offer
      [of "example_oracle\<lparr>receiptResponse := NetworkError example_bigint_error\<rparr>"
         example_offer example_node 200 "''OK''"] v ok t
    by (simp add: example_oracle_def o delete_conv)
  from v ok 1 2 3 4 5 show ?thesis by simp
qed

section \<open>Offers after shutdown has begun\<close>





end
